theory Spec2Isabelle
  imports Main "HOL-Library.Multiset"
begin

section \<open>LocalDB.js: a shallow embedding of the SQL engine\<close>

text \<open>
  The theory embeds the class \<^verbatim>\<open>LocalDB\<close> of \<^verbatim>\<open>src/localdb.js\<close>: every method that
  takes part in executing a statement is a HOL function of the same name, every regular
  expression of the source is a value of the type \<open>re\<close> below, and the JavaScript
  built-ins the methods call (\<^verbatim>\<open>trim\<close>, \<^verbatim>\<open>split\<close>, \<^verbatim>\<open>match\<close>, \<^verbatim>\<open>replace\<close>, \<^verbatim>\<open>sort\<close>, the
  loose comparisons) are modelled next to them.

  Conventions of the model:
  \<^item> a JavaScript string is a \<open>string\<close> of 8-bit characters (code units below 256); case
    mapping is the ASCII one;
  \<^item> a number is an \<open>int\<close>: numeric text is recognised as an optionally signed run of
    decimal digits, the only numeric form the repository's documentation uses; fractions,
    exponents, hexadecimal text and the precision of doubles are outside the model;
  \<^item> an object (a row, the schema, a group table) is an association list kept in
    JavaScript's property order: array-index keys ascending first, then the other keys
    in insertion order; property names inherited from \<^verbatim>\<open>Object.prototype\<close> are not modelled;
  \<^item> \<^verbatim>\<open>localStorage\<close> is a map from table names to row lists (the entry \<^verbatim>\<open>dbName_table\<close>)
    plus the persisted schema (the entry \<^verbatim>\<open>dbName_schema\<close>); writing a row list performs the
    JSON round trip, which drops fields whose value is \<^verbatim>\<open>undefined\<close>;
  \<^item> a thrown \<^verbatim>\<open>Error\<close> is \<open>Inl (Error msg)\<close>; an exception raised by the JavaScript
    runtime itself (a \<^verbatim>\<open>TypeError\<close>, an invalid dynamic regular expression) is
    \<open>Inl NativeError\<close>, whatever text the engine gives it; the state is returned next to
    the result, because writes made before a throw stay in the store;
  \<^item> the methods \<^verbatim>\<open>execute\<close>, \<^verbatim>\<open>select\<close> and \<^verbatim>\<open>evaluateWhere\<close> call each other through
    subqueries; their recursion is bounded by a fuel argument and \<open>Inl OutOfFuel\<close> is the
    value of a run that needs more.
\<close>

subsection \<open>Characters and strings\<close>

definition js_space :: "char \<Rightarrow> bool" where
  "js_space c = (c \<in> set [CHR 0x09, CHR 0x0A, CHR 0x0B, CHR 0x0C, CHR 0x0D, CHR 0x20, CHR 0xA0])"

definition lower_letters :: string where
  "lower_letters = ''abcdefghijklmnopqrstuvwxyz''"

definition upper_letters :: string where
  "upper_letters = ''ABCDEFGHIJKLMNOPQRSTUVWXYZ''"

definition decimal_digits :: string where
  "decimal_digits = ''0123456789''"

definition toUpperChar :: "char \<Rightarrow> char" where
  "toUpperChar c = (case map_of (zip lower_letters upper_letters) c of Some u \<Rightarrow> u | None \<Rightarrow> c)"

definition toLowerChar :: "char \<Rightarrow> char" where
  "toLowerChar c = (case map_of (zip upper_letters lower_letters) c of Some u \<Rightarrow> u | None \<Rightarrow> c)"

definition toUpperCase :: "string \<Rightarrow> string" where
  "toUpperCase s = map toUpperChar s"

definition toLowerCase :: "string \<Rightarrow> string" where
  "toLowerCase s = map toLowerChar s"

definition js_word :: "char \<Rightarrow> bool" where
  "js_word c = (c \<in> set (lower_letters @ upper_letters @ decimal_digits @ ''_''))"

definition js_digit :: "char \<Rightarrow> bool" where
  "js_digit c = (c \<in> set decimal_digits)"

text \<open>\<^verbatim>\<open>String.prototype.trim\<close>: white space and line terminators go from both ends.\<close>

definition js_trim :: "string \<Rightarrow> string" where
  "js_trim s = rev (dropWhile js_space (rev (dropWhile js_space s)))"

fun js_startsWith :: "string \<Rightarrow> string \<Rightarrow> bool" where
  "js_startsWith s [] = True"
| "js_startsWith [] (p # ps) = False"
| "js_startsWith (x # xs) (p # ps) = (x = p \<and> js_startsWith xs ps)"

definition js_endsWith :: "string \<Rightarrow> string \<Rightarrow> bool" where
  "js_endsWith s p = js_startsWith (rev s) (rev p)"

fun js_includes :: "string \<Rightarrow> string \<Rightarrow> bool" where
  "js_includes [] p = (p = [])"
| "js_includes (x # xs) p = (js_startsWith (x # xs) p \<or> js_includes xs p)"

text \<open>
  \<^verbatim>\<open>s.split(sep)\<close> for a non-empty separator string: the pieces between the occurrences
  of \<open>sep\<close>, scanned from the left. The source never splits on the empty string.
\<close>

fun split_loop :: "string \<Rightarrow> string \<Rightarrow> string \<Rightarrow> string list" where
  "split_loop sep acc [] = [rev acc]"
| "split_loop sep acc (x # xs) =
     (if sep \<noteq> [] \<and> js_startsWith (x # xs) sep
      then rev acc # split_loop sep [] (drop (length sep - 1) xs)
      else split_loop sep (x # acc) xs)"

definition js_split :: "string \<Rightarrow> string \<Rightarrow> string list" where
  "js_split s sep = split_loop sep [] s"

text \<open>
  \<^verbatim>\<open>s.replace(pattern, replacement)\<close> with a string pattern replaces the first occurrence.
  The replacement text is expanded as JavaScript does (\<^verbatim>\<open>GetSubstitution\<close> with no capture
  groups): \<^verbatim>\<open>$$\<close> is a dollar sign, \<^verbatim>\<open>$&\<close> the matched text, \<^verbatim>\<open>$`\<close> the text before the match
  and \<^verbatim>\<open>$'\<close> the text after it.
\<close>

fun getSubstitution :: "string \<Rightarrow> string \<Rightarrow> string \<Rightarrow> string \<Rightarrow> string" where
  "getSubstitution m b a [] = []"
| "getSubstitution m b a [c] = [c]"
| "getSubstitution m b a (c # d # r) =
     (if c = CHR ''$'' then
        (if d = CHR ''$'' then CHR ''$'' # getSubstitution m b a r
         else if d = CHR ''&'' then m @ getSubstitution m b a r
         else if d = CHR 0x60 then b @ getSubstitution m b a r
         else if d = CHR 0x27 then a @ getSubstitution m b a r
         else c # getSubstitution m b a (d # r))
      else c # getSubstitution m b a (d # r))"

fun find_sub :: "string \<Rightarrow> string \<Rightarrow> string \<Rightarrow> (string \<times> string) option" where
  "find_sub pat acc [] = (if pat = [] then Some (rev acc, []) else None)"
| "find_sub pat acc (x # xs) =
     (if js_startsWith (x # xs) pat then Some (rev acc, drop (length pat) (x # xs))
      else find_sub pat (x # acc) xs)"

definition js_replace :: "string \<Rightarrow> string \<Rightarrow> string \<Rightarrow> string" where
  "js_replace s pat repl =
     (case find_sub pat [] s of
        None \<Rightarrow> s
      | Some (pre, post) \<Rightarrow> pre @ getSubstitution pat pre post repl @ post)"

subsection \<open>Values, numbers and their text\<close>

datatype jsval = Undefined | Null | Num int | Str string

definition digit_val :: "char \<Rightarrow> nat" where
  "digit_val c = (case map_of (zip decimal_digits [0, 1, 2, 3, 4, 5, 6, 7, 8, 9]) c of Some d \<Rightarrow> d | None \<Rightarrow> 0)"

definition nat_of_digits :: "string \<Rightarrow> nat" where
  "nat_of_digits ds = foldl (\<lambda>a c. 10 * a + digit_val c) 0 ds"

text \<open>The numeric strings of the model: \<^verbatim>\<open>[+-]?[0-9]+\<close>.\<close>

definition int_literal :: "string \<Rightarrow> int option" where
  "int_literal s =
     (case s of
        [] \<Rightarrow> None
      | c # ds \<Rightarrow>
          if c = CHR ''-'' then
            (if ds \<noteq> [] \<and> list_all js_digit ds then Some (- int (nat_of_digits ds)) else None)
          else if c = CHR ''+'' then
            (if ds \<noteq> [] \<and> list_all js_digit ds then Some (int (nat_of_digits ds)) else None)
          else if list_all js_digit (c # ds) then Some (int (nat_of_digits (c # ds)))
          else None)"

fun show_nat :: "nat \<Rightarrow> string" where
  "show_nat n =
     (if n < 10 then [decimal_digits ! n]
      else show_nat (n div 10) @ [decimal_digits ! (n mod 10)])"

declare show_nat.simps [simp del]

definition show_int :: "int \<Rightarrow> string" where
  "show_int i = (if i < 0 then CHR ''-'' # show_nat (nat (- i)) else show_nat (nat i))"

text \<open>\<^verbatim>\<open>String(v)\<close>.\<close>

fun js_String :: "jsval \<Rightarrow> string" where
  "js_String Undefined = ''undefined''"
| "js_String Null = ''null''"
| "js_String (Num n) = show_int n"
| "js_String (Str s) = s"

text \<open>An element's text in \<^verbatim>\<open>Array.prototype.join\<close>: \<^verbatim>\<open>undefined\<close> and \<^verbatim>\<open>null\<close> are empty.\<close>

fun join_text :: "jsval \<Rightarrow> string" where
  "join_text Undefined = []"
| "join_text Null = []"
| "join_text v = js_String v"

fun js_join :: "string list \<Rightarrow> string \<Rightarrow> string" where
  "js_join [] sep = []"
| "js_join [x] sep = x"
| "js_join (x # y # ys) sep = x @ sep @ js_join (y # ys) sep"

text \<open>Truthiness: \<^verbatim>\<open>undefined\<close>, \<^verbatim>\<open>null\<close>, \<^verbatim>\<open>0\<close> and the empty string are falsy.\<close>

fun truthy :: "jsval \<Rightarrow> bool" where
  "truthy Undefined = False"
| "truthy Null = False"
| "truthy (Num n) = (n \<noteq> 0)"
| "truthy (Str s) = (s \<noteq> [])"

text \<open>\<^verbatim>\<open>ToNumber\<close>; \<open>None\<close> is \<^verbatim>\<open>NaN\<close>.\<close>

fun toNumber :: "jsval \<Rightarrow> int option" where
  "toNumber Undefined = None"
| "toNumber Null = Some 0"
| "toNumber (Num n) = Some n"
| "toNumber (Str s) = (if js_trim s = [] then Some 0 else int_literal (js_trim s))"

text \<open>Code-unit order of two strings.\<close>

fun str_less :: "string \<Rightarrow> string \<Rightarrow> bool" where
  "str_less [] [] = False"
| "str_less [] (y # ys) = True"
| "str_less (x # xs) [] = False"
| "str_less (x # xs) (y # ys) =
     (if x = y then str_less xs ys else (of_char x :: nat) < of_char y)"

text \<open>
  The relational comparison \<^verbatim>\<open>a < b\<close>: \<open>Some\<close> of the answer, \<open>None\<close> when an operand is
  \<^verbatim>\<open>NaN\<close>. Two strings compare as text, every other pair as numbers.
\<close>

fun js_compare :: "jsval \<Rightarrow> jsval \<Rightarrow> bool option" where
  "js_compare (Str a) (Str b) = Some (str_less a b)"
| "js_compare a b =
     (case (toNumber a, toNumber b) of
        (Some x, Some y) \<Rightarrow> Some (x < y)
      | _ \<Rightarrow> None)"

definition js_lt :: "jsval \<Rightarrow> jsval \<Rightarrow> bool" where
  "js_lt a b = (js_compare a b = Some True)"

definition js_gt :: "jsval \<Rightarrow> jsval \<Rightarrow> bool" where
  "js_gt a b = (js_compare b a = Some True)"

definition js_le :: "jsval \<Rightarrow> jsval \<Rightarrow> bool" where
  "js_le a b = (js_compare b a = Some False)"

definition js_ge :: "jsval \<Rightarrow> jsval \<Rightarrow> bool" where
  "js_ge a b = (js_compare a b = Some False)"

text \<open>The loose equality \<^verbatim>\<open>a == b\<close>.\<close>

fun js_eq :: "jsval \<Rightarrow> jsval \<Rightarrow> bool" where
  "js_eq Undefined b = (b = Undefined \<or> b = Null)"
| "js_eq Null b = (b = Undefined \<or> b = Null)"
| "js_eq (Num x) (Num y) = (x = y)"
| "js_eq (Num x) (Str s) = (toNumber (Str s) = Some x)"
| "js_eq (Str s) (Num y) = (toNumber (Str s) = Some y)"
| "js_eq (Str s) (Str t) = (s = t)"
| "js_eq a b = False"

subsection \<open>Objects\<close>

type_synonym 'a obj = "(string \<times> 'a) list"
type_synonym row = "jsval obj"

text \<open>
  A canonical array index is the decimal text of a number below \<open>2^32 - 1\<close>; such keys are
  enumerated first, in ascending order.
\<close>

definition array_index :: "string \<Rightarrow> nat option" where
  "array_index k =
     (if k \<noteq> [] \<and> list_all js_digit k \<and> (k = ''0'' \<or> \<not> js_startsWith k ''0'')
         \<and> nat_of_digits k < 4294967295
      then Some (nat_of_digits k) else None)"

fun obj_has :: "'a obj \<Rightarrow> string \<Rightarrow> bool" where
  "obj_has [] k = False"
| "obj_has ((k', v) # ps) k = (k' = k \<or> obj_has ps k)"

fun obj_lookup :: "'a obj \<Rightarrow> string \<Rightarrow> 'a option" where
  "obj_lookup [] k = None"
| "obj_lookup ((k', v) # ps) k = (if k' = k then Some v else obj_lookup ps k)"

fun obj_replace :: "'a obj \<Rightarrow> string \<Rightarrow> 'a \<Rightarrow> 'a obj" where
  "obj_replace [] k v = []"
| "obj_replace ((k', v') # ps) k v =
     (if k' = k then (k', v) # ps else (k', v') # obj_replace ps k v)"

fun obj_insert_index :: "nat \<Rightarrow> string \<Rightarrow> 'a \<Rightarrow> 'a obj \<Rightarrow> 'a obj" where
  "obj_insert_index n k v [] = [(k, v)]"
| "obj_insert_index n k v ((k', v') # ps) =
     (case array_index k' of
        Some n' \<Rightarrow>
          if n' < n then (k', v') # obj_insert_index n k v ps else (k, v) # (k', v') # ps
      | None \<Rightarrow> (k, v) # (k', v') # ps)"

text \<open>The assignment \<^verbatim>\<open>o[k] = v\<close>.\<close>

definition obj_set :: "'a obj \<Rightarrow> string \<Rightarrow> 'a \<Rightarrow> 'a obj" where
  "obj_set ps k v =
     (if obj_has ps k then obj_replace ps k v
      else case array_index k of
             Some n \<Rightarrow> obj_insert_index n k v ps
           | None \<Rightarrow> ps @ [(k, v)])"

text \<open>The read \<^verbatim>\<open>row[col]\<close>: a missing property reads as \<^verbatim>\<open>undefined\<close>.\<close>

definition row_get :: "row \<Rightarrow> string \<Rightarrow> jsval" where
  "row_get r k = (case obj_lookup r k of Some v \<Rightarrow> v | None \<Rightarrow> Undefined)"

definition obj_keys :: "'a obj \<Rightarrow> string list" where
  "obj_keys ps = map fst ps"

definition obj_values :: "'a obj \<Rightarrow> 'a list" where
  "obj_values ps = map snd ps"

text \<open>
  \<^verbatim>\<open>JSON.parse(JSON.stringify(rows))\<close>: a field holding \<^verbatim>\<open>undefined\<close> is not written.
\<close>

definition json_row :: "row \<Rightarrow> row" where
  "json_row r = filter (\<lambda>(k, v). v \<noteq> Undefined) r"

definition json_rows :: "row list \<Rightarrow> row list" where
  "json_rows rs = map json_row rs"

subsection \<open>Regular expressions\<close>

text \<open>
  The regular expressions of the source, as a datatype, and a backtracking matcher in
  continuation style that follows the ECMAScript semantics: alternatives are tried left
  to right, \<open>RStar\<close> is greedy and \<open>RStarLazy\<close> is not, an iteration of a starred
  expression that consumes nothing is rejected, \<open>RGrp n\<close> records the text of capture
  group \<open>n\<close>, \<open>RAhead\<close> is the lookahead \<^verbatim>\<open>(?=...)\<close>, \<open>REol\<close> is \<^verbatim>\<open>$\<close> and \<open>RDot\<close> is any
  character but a line terminator. \<open>RNotWordAhead\<close> and \<open>RWordAhead\<close> are the two
  readings of \<^verbatim>\<open>\b\<close> after a word character and after another character. The flag \<open>i\<close> is
  the \<^verbatim>\<open>i\<close> flag of the expression.
\<close>

datatype re =
    RLit char | RSpace | RWord | RDigit | RDot | REps | REol
  | RNotWordAhead | RWordAhead
  | RSeq re re | RAlt re re | RStar re | RStarLazy re | RGrp nat re | RAhead re

text \<open>
  A capture is kept as the subject text at the opening and at the closing of the group;
  the captured text is what lies between the two.
\<close>

type_synonym caps = "nat \<Rightarrow> (string \<times> string) option"
type_synonym cont = "string \<Rightarrow> caps \<Rightarrow> (string \<times> caps) option"

fun one_char :: "(char \<Rightarrow> bool) \<Rightarrow> string \<Rightarrow> caps \<Rightarrow> cont \<Rightarrow> (string \<times> caps) option" where
  "one_char p [] c k = None"
| "one_char p (x # xs) c k = (if p x then k xs c else None)"

fun next_is_word :: "string \<Rightarrow> bool" where
  "next_is_word [] = False"
| "next_is_word (x # xs) = js_word x"

fun rx :: "bool \<Rightarrow> re \<Rightarrow> string \<Rightarrow> caps \<Rightarrow> cont \<Rightarrow> (string \<times> caps) option" where
  "rx i (RLit a) s c k =
     one_char (\<lambda>x. if i then toUpperChar x = toUpperChar a else x = a) s c k"
| "rx i RSpace s c k = one_char js_space s c k"
| "rx i RWord s c k = one_char js_word s c k"
| "rx i RDigit s c k = one_char js_digit s c k"
| "rx i RDot s c k = one_char (\<lambda>x. x \<noteq> CHR 0x0A \<and> x \<noteq> CHR 0x0D) s c k"
| "rx i REps s c k = k s c"
| "rx i REol s c k = (if s = [] then k s c else None)"
| "rx i RNotWordAhead s c k = (if next_is_word s then None else k s c)"
| "rx i RWordAhead s c k = (if next_is_word s then k s c else None)"
| "rx i (RSeq a b) s c k = rx i a s c (\<lambda>s' c'. rx i b s' c' k)"
| "rx i (RAlt a b) s c k =
     (case rx i a s c k of Some r \<Rightarrow> Some r | None \<Rightarrow> rx i b s c k)"
| "rx i (RStar a) s c k =
     (case rx i a s c (\<lambda>s' c'. if length s' < length s then rx i (RStar a) s' c' k else None) of
        Some r \<Rightarrow> Some r
      | None \<Rightarrow> k s c)"
| "rx i (RStarLazy a) s c k =
     (case k s c of
        Some r \<Rightarrow> Some r
      | None \<Rightarrow>
          rx i a s c (\<lambda>s' c'. if length s' < length s then rx i (RStarLazy a) s' c' k else None))"
| "rx i (RGrp n a) s c k =
     rx i a s c (\<lambda>s' c'. k s' (c'(n \<mapsto> (s, s'))))"
| "rx i (RAhead a) s c k =
     (case rx i a s c (\<lambda>s' c'. Some (s', c')) of
        Some (s', c') \<Rightarrow> k s c'
      | None \<Rightarrow> None)"

text \<open>The test \<open>length xs < length ys\<close> in one pass over both lists.\<close>

fun shorter :: "'a list \<Rightarrow> 'a list \<Rightarrow> bool" where
  "shorter [] [] = False"
| "shorter [] (y # ys) = True"
| "shorter (x # xs) [] = False"
| "shorter (x # xs) (y # ys) = shorter xs ys"

text \<open>\<^verbatim>\<open>a+\<close>, \<^verbatim>\<open>a+?\<close>, \<^verbatim>\<open>a?\<close>, a literal word and a sequence.\<close>

definition RPlus :: "re \<Rightarrow> re" where
  "RPlus a = RSeq a (RStar a)"

definition RPlusLazy :: "re \<Rightarrow> re" where
  "RPlusLazy a = RSeq a (RStarLazy a)"

definition ROpt :: "re \<Rightarrow> re" where
  "ROpt a = RAlt a REps"

fun RStr :: "string \<Rightarrow> re" where
  "RStr [] = REps"
| "RStr [x] = RLit x"
| "RStr (x # y # ys) = RSeq (RLit x) (RStr (y # ys))"

fun RSeqs :: "re list \<Rightarrow> re" where
  "RSeqs [] = REps"
| "RSeqs [a] = a"
| "RSeqs (a # b # bs) = RSeq a (RSeqs (b # bs))"

text \<open>A match that starts at the head of the string: the rest and the captures.\<close>

definition match_here :: "bool \<Rightarrow> re \<Rightarrow> string \<Rightarrow> (string \<times> caps) option" where
  "match_here i r s = rx i r s (\<lambda>n. None) (\<lambda>s' c'. Some (s', c'))"

text \<open>
  \<^verbatim>\<open>s.match(r)\<close> without the \<^verbatim>\<open>g\<close> flag: the leftmost match, as the text before it, the
  matched text, the text after it and the captures.
\<close>

type_synonym rmatch = "string \<times> string \<times> string \<times> caps"

fun re_search :: "bool \<Rightarrow> re \<Rightarrow> string \<Rightarrow> string \<Rightarrow> rmatch option" where
  "re_search i r pre [] =
     (case match_here i r [] of
        Some (s', c) \<Rightarrow> Some (rev pre, [], s', c)
      | None \<Rightarrow> None)"
| "re_search i r pre (x # xs) =
     (case match_here i r (x # xs) of
        Some (s', c) \<Rightarrow> Some (rev pre, take (length (x # xs) - length s') (x # xs), s', c)
      | None \<Rightarrow> re_search i r (x # pre) xs)"

definition re_match :: "bool \<Rightarrow> re \<Rightarrow> string \<Rightarrow> rmatch option" where
  "re_match i r s = re_search i r [] s"

definition re_test :: "bool \<Rightarrow> re \<Rightarrow> string \<Rightarrow> bool" where
  "re_test i r s = (re_match i r s \<noteq> None)"

text \<open>An expression that begins with \<^verbatim>\<open>^\<close> matches at the head only.\<close>

definition re_match_anchored :: "bool \<Rightarrow> re \<Rightarrow> string \<Rightarrow> rmatch option" where
  "re_match_anchored i r s =
     (case match_here i r s of
        Some (s', c) \<Rightarrow> Some ([], take (length s - length s') s, s', c)
      | None \<Rightarrow> None)"

text \<open>Capture group \<open>n\<close> of a match; \<open>None\<close> is \<^verbatim>\<open>undefined\<close>.\<close>

definition grp :: "rmatch \<Rightarrow> nat \<Rightarrow> string option" where
  "grp m n =
     (case m of
        (b, t, a, c) \<Rightarrow>
          (case c n of
             Some (s, s') \<Rightarrow> Some (take (length s - length s') s)
           | None \<Rightarrow> None))"

definition matched :: "rmatch \<Rightarrow> string" where
  "matched m = (case m of (b, t, a, c) \<Rightarrow> t)"

text \<open>
  \<^verbatim>\<open>s.replace(r, replacement)\<close> without the \<^verbatim>\<open>g\<close> flag. The replacement texts the source
  passes hold no capture reference.
\<close>

definition re_replace :: "bool \<Rightarrow> re \<Rightarrow> string \<Rightarrow> string \<Rightarrow> string" where
  "re_replace i r s repl =
     (case re_match i r s of
        None \<Rightarrow> s
      | Some (b, t, a, c) \<Rightarrow> b @ getSubstitution t b a repl @ a)"

text \<open>
  \<^verbatim>\<open>s.replace(r, replacement)\<close> with the \<^verbatim>\<open>g\<close> flag: every match, left to right; after an
  empty match the scan moves on by one character.
\<close>

fun re_replace_all_loop :: "bool \<Rightarrow> re \<Rightarrow> string \<Rightarrow> string \<Rightarrow> string \<Rightarrow> string" where
  "re_replace_all_loop i r repl pre [] =
     (case match_here i r [] of
        Some (s', c) \<Rightarrow> getSubstitution [] (rev pre) [] repl
      | None \<Rightarrow> [])"
| "re_replace_all_loop i r repl pre (x # xs) =
     (case match_here i r (x # xs) of
        Some (s', c) \<Rightarrow>
          if length s' < length (x # xs)
          then getSubstitution (take (length (x # xs) - length s') (x # xs)) (rev pre) s' repl
                 @ re_replace_all_loop i r repl
                     (rev (take (length (x # xs) - length s') (x # xs)) @ pre) s'
          else getSubstitution [] (rev pre) (x # xs) repl
                 @ x # re_replace_all_loop i r repl (x # pre) xs
      | None \<Rightarrow> x # re_replace_all_loop i r repl (x # pre) xs)"

definition re_replace_all :: "bool \<Rightarrow> re \<Rightarrow> string \<Rightarrow> string \<Rightarrow> string" where
  "re_replace_all i r s repl = re_replace_all_loop i r repl [] s"

text \<open>
  \<^verbatim>\<open>s.split(r)\<close>: the pieces between the matches, each followed by the text of the
  capture groups \<open>1..m\<close> of the match that ends it. All expressions the source splits
  on match at least one character, and their groups always take part in a match.
\<close>

fun re_split_loop :: "bool \<Rightarrow> re \<Rightarrow> nat \<Rightarrow> string \<Rightarrow> string \<Rightarrow> string list" where
  "re_split_loop i r m acc [] = [rev acc]"
| "re_split_loop i r m acc (x # xs) =
     (case match_here i r (x # xs) of
        Some (s', c) \<Rightarrow>
          if length s' < length (x # xs)
          then rev acc # map (\<lambda>n. case c n of
                                      Some (t, t') \<Rightarrow> take (length t - length t') t
                                    | None \<Rightarrow> []) [1 ..< Suc m]
                 @ re_split_loop i r m [] s'
          else re_split_loop i r m (x # acc) xs
      | None \<Rightarrow> re_split_loop i r m (x # acc) xs)"

definition re_split :: "bool \<Rightarrow> re \<Rightarrow> nat \<Rightarrow> string \<Rightarrow> string list" where
  "re_split i r m s = re_split_loop i r m [] s"

subsection \<open>ORDER BY\<close>

definition whitespaceRegex :: re where
  "whitespaceRegex = RPlus RSpace"

definition strip_table :: "string \<Rightarrow> string" where
  "strip_table col =
     (if js_includes col ''.''
      then (case js_split col ''.'' of a # b # rest \<Rightarrow> b | _ \<Rightarrow> col)
      else col)"

record order_part =
  pcol :: string
  pdir :: string

definition orderBy_part :: "string \<Rightarrow> order_part" where
  "orderBy_part p =
     (case re_split False whitespaceRegex 0 (js_trim p) of
        [] \<Rightarrow> \<lparr>pcol = [], pdir = ''ASC''\<rparr>
      | [col] \<Rightarrow> \<lparr>pcol = strip_table col, pdir = ''ASC''\<rparr>
      | col # dir # rest \<Rightarrow>
          \<lparr>pcol = strip_table col, pdir = toUpperCase (if dir = [] then ''ASC'' else dir)\<rparr>)"

definition orderBy_parts :: "string \<Rightarrow> order_part list" where
  "orderBy_parts orderByClause = map orderBy_part (js_split orderByClause '','')"

fun compareRows :: "order_part list \<Rightarrow> row \<Rightarrow> row \<Rightarrow> int" where
  "compareRows [] a b = 0"
| "compareRows (part # parts) a b =
     (let valA = row_get a (pcol part);
          valB = row_get b (pcol part);
          cmp = (if js_lt valA valB then - 1 else if js_gt valA valB then 1 else 0)
      in if cmp \<noteq> 0 then (if pdir part = ''DESC'' then - cmp else cmp)
         else compareRows parts a b)"

text \<open>
  \<^verbatim>\<open>Array.prototype.sort(comparefn)\<close> is stable (ECMAScript 2019): an element moves in front
  of another one only when the comparison function says so. It is modelled as the
  insertion of every element, from the last to the first, in front of the first element
  that it is not greater than.
\<close>

fun sort_insert :: "('a \<Rightarrow> 'a \<Rightarrow> int) \<Rightarrow> 'a \<Rightarrow> 'a list \<Rightarrow> 'a list" where
  "sort_insert f x [] = [x]"
| "sort_insert f x (y # ys) = (if f x y > 0 then y # sort_insert f x ys else x # y # ys)"

definition js_sort :: "('a \<Rightarrow> 'a \<Rightarrow> int) \<Rightarrow> 'a list \<Rightarrow> 'a list" where
  "js_sort f xs = foldr (sort_insert f) xs []"

definition orderBy :: "row list \<Rightarrow> string \<Rightarrow> row list" where
  "orderBy data orderByClause = js_sort (compareRows (orderBy_parts orderByClause)) data"

subsection \<open>The database, results and errors\<close>

text \<open>
  A \<^verbatim>\<open>LocalDB\<close> instance: the in-memory schema \<^verbatim>\<open>this.tables\<close> and the two kinds of entries
  it keeps in \<^verbatim>\<open>localStorage\<close>.
\<close>

record table_schema =
  columns :: "string obj"
  primaryKey :: "string option"

record db =
  tables :: "table_schema obj"
  stored_schema :: "table_schema obj option"
  stored_rows :: "string \<Rightarrow> row list option"

datatype error = Error string | NativeError | Unmodelled | OutOfFuel

text \<open>
  \<open>Unmodelled\<close> is the value of a run that builds a regular expression at run time from
  text holding a regular-expression operator (a LIKE pattern, a correlated column name):
  the model has no parser for such expressions.
\<close>

datatype result = Rows "row list" | Status string

type_synonym 'a comp = "db \<Rightarrow> (error + 'a) \<times> db"

definition ret :: "'a \<Rightarrow> 'a comp" where
  "ret x st = (Inr x, st)"

definition throw :: "error \<Rightarrow> 'a comp" where
  "throw e st = (Inl e, st)"

definition bind :: "'a comp \<Rightarrow> ('a \<Rightarrow> 'b comp) \<Rightarrow> 'b comp" where
  "bind m f st = (case m st of (Inl e, st') \<Rightarrow> (Inl e, st') | (Inr x, st') \<Rightarrow> f x st')"

text \<open>
  \<^verbatim>\<open>try { m } catch (error) { throw new Error(prefix + error.message) }\<close>
\<close>

fun rethrow :: "string \<Rightarrow> error \<Rightarrow> error" where
  "rethrow prefix (Error msg) = Error (prefix @ msg)"
| "rethrow prefix e = e"

definition try_rethrow :: "string \<Rightarrow> 'a comp \<Rightarrow> 'a comp" where
  "try_rethrow prefix m st =
     (case m st of (Inl e, st') \<Rightarrow> (Inl (rethrow prefix e), st') | (Inr x, st') \<Rightarrow> (Inr x, st'))"

text \<open>\<^verbatim>\<open>data.filter(row => p(row))\<close> where \<open>p\<close> may throw and may touch the store.\<close>

fun filter_rows :: "(row \<Rightarrow> bool comp) \<Rightarrow> row list \<Rightarrow> row list comp" where
  "filter_rows p [] st = (Inr [], st)"
| "filter_rows p (r # rs) st =
     (case p r st of
        (Inl e, st') \<Rightarrow> (Inl e, st')
      | (Inr b, st') \<Rightarrow>
          (case filter_rows p rs st' of
             (Inl e, st'') \<Rightarrow> (Inl e, st'')
           | (Inr rs', st'') \<Rightarrow> (Inr (if b then r # rs' else rs'), st'')))"

definition getTableData :: "db \<Rightarrow> string \<Rightarrow> row list" where
  "getTableData st tableName =
     (case stored_rows st tableName of Some data \<Rightarrow> data | None \<Rightarrow> [])"

definition saveTableData :: "string \<Rightarrow> row list \<Rightarrow> db \<Rightarrow> db" where
  "saveTableData tableName data st =
     st\<lparr>stored_rows := (stored_rows st)(tableName \<mapsto> json_rows data)\<rparr>"

definition removeItem :: "string \<Rightarrow> db \<Rightarrow> db" where
  "removeItem tableName st = st\<lparr>stored_rows := (stored_rows st)(tableName := None)\<rparr>"

definition saveSchema :: "db \<Rightarrow> db" where
  "saveSchema st = st\<lparr>stored_schema := Some (tables st)\<rparr>"

text \<open>The text of capture group \<open>n\<close> of a match in which the group took part.\<close>

definition grp_str :: "rmatch \<Rightarrow> nat \<Rightarrow> string" where
  "grp_str m n = (case grp m n of Some t \<Rightarrow> t | None \<Rightarrow> [])"

text \<open>A captured clause is used when it is neither \<^verbatim>\<open>undefined\<close> nor empty.\<close>

definition clause :: "rmatch \<Rightarrow> nat \<Rightarrow> string option" where
  "clause m n = (case grp m n of Some t \<Rightarrow> (if t = [] then None else Some t) | None \<Rightarrow> None)"

subsection \<open>Literals\<close>

definition parseValue :: "string \<Rightarrow> jsval" where
  "parseValue v =
     (let val = js_trim v in
      if (js_startsWith val [CHR 0x27] \<and> js_endsWith val [CHR 0x27])
           \<or> (js_startsWith val [CHR 0x22] \<and> js_endsWith val [CHR 0x22])
      then Str (butlast (tl val))
      else (case int_literal val of Some n \<Rightarrow> Num n | None \<Rightarrow> Str val))"

fun parseValues_loop ::
  "string \<Rightarrow> jsval list \<Rightarrow> string \<Rightarrow> bool \<Rightarrow> char option \<Rightarrow> jsval list" where
  "parseValues_loop [] vals current inString stringChar =
     (if current \<noteq> [] then vals @ [parseValue current] else vals)"
| "parseValues_loop (ch # rest) vals current inString stringChar =
     (if (ch = CHR 0x27 \<or> ch = CHR 0x22) \<and> \<not> inString
      then parseValues_loop rest vals (current @ [ch]) True (Some ch)
      else if stringChar = Some ch \<and> inString
      then parseValues_loop rest vals (current @ [ch]) False stringChar
      else if ch = CHR '','' \<and> \<not> inString
      then parseValues_loop rest (vals @ [parseValue current]) [] inString stringChar
      else parseValues_loop rest vals (current @ [ch]) inString stringChar)"

definition parseValues :: "string \<Rightarrow> jsval list" where
  "parseValues valuesStr = parseValues_loop valuesStr [] [] False None"

definition formatValue :: "jsval \<Rightarrow> string" where
  "formatValue v =
     (case v of
        Undefined \<Rightarrow> ''NULL''
      | Null \<Rightarrow> ''NULL''
      | Str s \<Rightarrow> [CHR 0x27] @ s @ [CHR 0x27]
      | Num n \<Rightarrow> js_String (Num n))"

subsection \<open>CREATE TABLE and INSERT\<close>

text \<open>\<^verbatim>\<open>/CREATE\s+TABLE\s+(?:IF\s+NOT\s+EXISTS\s+)?(\w+)\s*\((.*)\)/i\<close>\<close>

definition createTableRegex :: re where
  "createTableRegex =
     RSeqs [RStr ''CREATE'', RPlus RSpace, RStr ''TABLE'', RPlus RSpace,
            ROpt (RSeqs [RStr ''IF'', RPlus RSpace, RStr ''NOT'', RPlus RSpace,
                         RStr ''EXISTS'', RPlus RSpace]),
            RGrp 1 (RPlus RWord), RStar RSpace, RLit CHR ''('', RGrp 2 (RStar RDot),
            RLit CHR '')'']"

text \<open>\<^verbatim>\<open>/(\w+)\s+\w+\s+PRIMARY\s+KEY/i\<close>\<close>

definition primaryKeyRegex :: re where
  "primaryKeyRegex =
     RSeqs [RGrp 1 (RPlus RWord), RPlus RSpace, RPlus RWord, RPlus RSpace,
            RStr ''PRIMARY'', RPlus RSpace, RStr ''KEY'']"

definition extractPrimaryKey :: "string \<Rightarrow> string option" where
  "extractPrimaryKey columnsStr =
     (case re_match True primaryKeyRegex columnsStr of
        Some m \<Rightarrow> Some (grp_str m 1)
      | None \<Rightarrow> None)"

text \<open>
  One column definition: \<^verbatim>\<open>const [name, ...typeParts] = col.trim().split(/\s+/)\<close> and
  \<^verbatim>\<open>columns[name] = typeParts.join(' ')\<close>.
\<close>

definition add_column :: "string obj \<Rightarrow> string \<Rightarrow> string obj" where
  "add_column cols col =
     (case re_split False whitespaceRegex 0 (js_trim col) of
        [] \<Rightarrow> cols
      | name # typeParts \<Rightarrow> obj_set cols name (js_join typeParts '' ''))"

definition createTable :: "string \<Rightarrow> result comp" where
  "createTable query st =
     (case re_match True createTableRegex query of
        None \<Rightarrow> (Inl (Error ''Invalid CREATE TABLE syntax''), st)
      | Some m \<Rightarrow>
          let tableName = grp_str m 1; columnsStr = grp_str m 2 in
          if obj_has (tables st) tableName
          then (Inl (Error (''Table '' @ tableName @ '' already exists'')), st)
          else
            let cols = foldl add_column [] (js_split columnsStr '','');
                st1 = st\<lparr>tables := obj_set (tables st) tableName
                        \<lparr>columns = cols, primaryKey = extractPrimaryKey columnsStr\<rparr>\<rparr>;
                st2 = saveTableData tableName [] (saveSchema st1)
            in (Inr (Status (''Table '' @ tableName @ '' created'')), st2))"

text \<open>\<^verbatim>\<open>/INSERT\s+INTO\s+(\w+)\s*\((.*?)\)\s*VALUES\s*\((.*?)\)/i\<close>\<close>

definition insertRegex :: re where
  "insertRegex =
     RSeqs [RStr ''INSERT'', RPlus RSpace, RStr ''INTO'', RPlus RSpace, RGrp 1 (RPlus RWord),
            RStar RSpace, RLit CHR ''('', RGrp 2 (RStarLazy RDot), RLit CHR '')'',
            RStar RSpace, RStr ''VALUES'', RStar RSpace,
            RLit CHR ''('', RGrp 3 (RStarLazy RDot), RLit CHR '')'']"

text \<open>
  \<^verbatim>\<open>columns.forEach((col, index) => { row[col] = values[index]; })\<close>: a column past the end
  of \<open>values\<close> is assigned \<^verbatim>\<open>undefined\<close>, a value past the end of \<open>columns\<close> is not read.
\<close>

fun assign_columns :: "row \<Rightarrow> string list \<Rightarrow> jsval list \<Rightarrow> row" where
  "assign_columns r [] vals = r"
| "assign_columns r (col # cols) [] = assign_columns (obj_set r col Undefined) cols []"
| "assign_columns r (col # cols) (v # vals) = assign_columns (obj_set r col v) cols vals"

definition insert_row :: "string \<Rightarrow> string list \<Rightarrow> jsval list \<Rightarrow> result comp" where
  "insert_row tableName cols vals st =
     (if \<not> obj_has (tables st) tableName
      then (Inl (Error (''Table '' @ tableName @ '' does not exist'')), st)
      else
        let r = assign_columns [] cols vals;
            data = getTableData st tableName @ [r]
        in (Inr (Status (''1 row inserted into '' @ tableName)),
            saveTableData tableName data st))"

text \<open>The method \<^verbatim>\<open>insert\<close>.\<close>

definition insert_stmt :: "string \<Rightarrow> result comp" where
  "insert_stmt query st =
     (case re_match True insertRegex query of
        None \<Rightarrow> (Inl (Error ''Invalid INSERT syntax''), st)
      | Some m \<Rightarrow>
          insert_row (grp_str m 1) (map js_trim (js_split (grp_str m 2) '','')) 
            (parseValues (grp_str m 3)) st)"

subsection \<open>Conditions\<close>

text \<open>\<^verbatim>\<open>/(\w+)\s+LIKE\s+(.+)/i\<close>\<close>

definition likeRegex :: re where
  "likeRegex =
     RSeqs [RGrp 1 (RPlus RWord), RPlus RSpace, RStr ''LIKE'', RPlus RSpace, RGrp 2 (RPlus RDot)]"

text \<open>\<^verbatim>\<open>/(\w+)\s+NOT\s+IN\s*\((.*?)\)(?:\s|$)/i\<close>\<close>

definition notInRegex :: re where
  "notInRegex =
     RSeqs [RGrp 1 (RPlus RWord), RPlus RSpace, RStr ''NOT'', RPlus RSpace, RStr ''IN'',
            RStar RSpace, RLit CHR ''('', RGrp 2 (RStarLazy RDot), RLit CHR '')'',
            RAlt RSpace REol]"

text \<open>\<^verbatim>\<open>/(\w+)\s+IN\s*\((.*?)\)(?:\s|$)/i\<close>\<close>

definition inRegex :: re where
  "inRegex =
     RSeqs [RGrp 1 (RPlus RWord), RPlus RSpace, RStr ''IN'', RStar RSpace, RLit CHR ''('',
            RGrp 2 (RStarLazy RDot), RLit CHR '')'', RAlt RSpace REol]"

text \<open>\<^verbatim>\<open>/(\w+)\s+BETWEEN\s+(.+?)\s+AND\s+(.+?)(?=\s*$)/i\<close>\<close>

definition betweenRegex :: re where
  "betweenRegex =
     RSeqs [RGrp 1 (RPlus RWord), RPlus RSpace, RStr ''BETWEEN'', RPlus RSpace,
            RGrp 2 (RPlusLazy RDot), RPlus RSpace, RStr ''AND'', RPlus RSpace,
            RGrp 3 (RPlusLazy RDot), RAhead (RSeq (RStar RSpace) REol)]"

text \<open>\<^verbatim>\<open>/(\w+)\s+IS\s+(NOT\s+)?NULL/i\<close>\<close>

definition isNullRegex :: re where
  "isNullRegex =
     RSeqs [RGrp 1 (RPlus RWord), RPlus RSpace, RStr ''IS'', RPlus RSpace,
            ROpt (RGrp 2 (RSeq (RStr ''NOT'') (RPlus RSpace))), RStr ''NULL'']"

text \<open>The characters that are operators in the source text of a regular expression.\<close>

definition regex_operator :: "char \<Rightarrow> bool" where
  "regex_operator c = (c \<in> set (''^$.*+?()[]{}|'' @ [CHR 0x5C]))"

text \<open>
  \<^verbatim>\<open>new RegExp('^' + pattern.replace(/%/g, '.*').replace(/_/g, '.') + '$')\<close>: a percent sign
  is any text, an underscore and a dot are any character, and every other character of the
  pattern stands for itself unless it is an operator.
\<close>

definition like_item :: "char \<Rightarrow> re" where
  "like_item c =
     (if c = CHR ''%'' then RStar RDot
      else if c = CHR ''_'' \<or> c = CHR ''.'' then RDot
      else RLit c)"

definition like_regex :: "string \<Rightarrow> re option" where
  "like_regex pattern =
     (if list_ex (\<lambda>c. regex_operator c \<and> c \<noteq> CHR ''.'') pattern then None
      else Some (RSeq (RSeqs (map like_item pattern)) REol))"

text \<open>
  The LIKE branch of \<^verbatim>\<open>evaluateCondition\<close>. A pattern that \<^verbatim>\<open>parseValue\<close> reads as a number
  has no method \<^verbatim>\<open>replace\<close>: the call throws a \<^verbatim>\<open>TypeError\<close>. The subject is
  \<^verbatim>\<open>String(row[col] || '')\<close>.
\<close>

definition like_subject :: "row \<Rightarrow> string \<Rightarrow> string" where
  "like_subject r col =
     js_String (if truthy (row_get r col) then row_get r col else Str [])"

definition like_condition :: "row \<Rightarrow> string \<Rightarrow> string \<Rightarrow> error + bool" where
  "like_condition r col patternText =
     (case parseValue patternText of
        Str pattern \<Rightarrow>
          (case like_regex pattern of
             Some regex \<Rightarrow> Inr (re_match_anchored False regex (like_subject r col) \<noteq> None)
           | None \<Rightarrow> Inl Unmodelled)
      | _ \<Rightarrow> Inl NativeError)"

text \<open>\<^verbatim>\<open>Object.values(r)[0]\<close>\<close>

definition first_value :: "row \<Rightarrow> jsval" where
  "first_value r = (case obj_values r of [] \<Rightarrow> Undefined | v # vs \<Rightarrow> v)"

text \<open>
  The values of an IN list: the first column of a subquery's rows, or the parsed literals.
  A result that is not an array is wrapped as \<^verbatim>\<open>[subqueryResult]\<close>, an object that no
  field value is equal to.
\<close>

definition in_values :: "(string \<Rightarrow> result comp) \<Rightarrow> string \<Rightarrow> string \<Rightarrow> jsval list comp" where
  "in_values exec prefix innerContent =
     (if js_startsWith (toUpperCase innerContent) ''SELECT''
      then try_rethrow prefix
             (bind (exec innerContent)
                (\<lambda>subqueryResult.
                   ret (case subqueryResult of
                          Rows rs \<Rightarrow> map first_value rs
                        | Status msg \<Rightarrow> [])))
      else ret (map (\<lambda>v. parseValue (js_trim v)) (js_split innerContent '','')))"

definition operators :: "string list" where
  "operators = [''>='', ''<='', ''!='', ''<>'', ''='', ''>'', ''<'']"

fun find_operator :: "string list \<Rightarrow> string \<Rightarrow> string option" where
  "find_operator [] condition = None"
| "find_operator (operator # rest) condition =
     (if js_includes condition operator then Some operator else find_operator rest condition)"

text \<open>The \<^verbatim>\<open>switch (op)\<close> at the end of \<^verbatim>\<open>evaluateCondition\<close>, label by label.\<close>

definition switch_op :: "string \<Rightarrow> jsval \<Rightarrow> jsval \<Rightarrow> bool" where
  "switch_op op rowValue val =
     (if op = ''='' then js_eq rowValue val
      else if op = ''!= '' \<or> op = ''<>'' then \<not> js_eq rowValue val
      else if op = ''>'' then js_gt rowValue val
      else if op = ''<'' then js_lt rowValue val
      else if op = ''>='' then js_ge rowValue val
      else if op = ''<='' then js_le rowValue val
      else False)"

definition comparison :: "(string \<Rightarrow> result comp) \<Rightarrow> row \<Rightarrow> string \<Rightarrow> bool comp" where
  "comparison exec r condition =
     (case find_operator operators condition of
        None \<Rightarrow> ret False
      | Some op \<Rightarrow>
          (case map js_trim (js_split condition op) of
             c0 # val # rest \<Rightarrow>
               let col = strip_table c0 in
               if js_startsWith (toUpperCase val) ''SELECT''
               then bind (try_rethrow ''Subquery error: ''
                            (bind (exec val)
                               (\<lambda>subqueryResult.
                                  ret (case subqueryResult of
                                         Rows (r0 # rs) \<Rightarrow> Some (first_value r0)
                                       | _ \<Rightarrow> None))))
                      (\<lambda>v. case v of
                              None \<Rightarrow> ret False
                            | Some val' \<Rightarrow> ret (switch_op op (row_get r col) val'))
               else ret (switch_op op (row_get r col) (parseValue val))
           | _ \<Rightarrow> ret False))"

definition evaluateCondition ::
  "(string \<Rightarrow> result comp) \<Rightarrow> row \<Rightarrow> string \<Rightarrow> string option \<Rightarrow> bool comp" where
  "evaluateCondition exec r cond tableName =
     (let condition = js_trim cond in
      case re_match True likeRegex condition of
        Some m \<Rightarrow>
          (case like_condition r (grp_str m 1) (grp_str m 2) of
             Inl e \<Rightarrow> throw e
           | Inr b \<Rightarrow> ret b)
      | None \<Rightarrow>
      (case re_match True notInRegex condition of
        Some m \<Rightarrow>
          bind (in_values exec ''Subquery error in NOT IN: '' (js_trim (grp_str m 2)))
            (\<lambda>vals. ret (\<not> List.member vals (row_get r (grp_str m 1))))
      | None \<Rightarrow>
      (case re_match True inRegex condition of
        Some m \<Rightarrow>
          bind (in_values exec ''Subquery error in IN: '' (js_trim (grp_str m 2)))
            (\<lambda>vals. ret (List.member vals (row_get r (grp_str m 1))))
      | None \<Rightarrow>
      (case re_match True betweenRegex condition of
        Some m \<Rightarrow>
          ret (js_ge (row_get r (grp_str m 1)) (parseValue (grp_str m 2))
               \<and> js_le (row_get r (grp_str m 1)) (parseValue (grp_str m 3)))
      | None \<Rightarrow>
      (case re_match True isNullRegex condition of
        Some m \<Rightarrow>
          let isNotNull = (case grp m 2 of
                             Some t \<Rightarrow> t \<noteq> [] \<and> toUpperCase (js_trim t) = ''NOT''
                           | None \<Rightarrow> False);
              isNull = (row_get r (grp_str m 1) = Null \<or> row_get r (grp_str m 1) = Undefined)
          in ret (if isNotNull then \<not> isNull else isNull)
      | None \<Rightarrow> comparison exec r condition)))))"

subsection \<open>WHERE and HAVING clauses\<close>

text \<open>\<^verbatim>\<open>/(NOT\s+)?EXISTS\s*\((SELECT\s+.+?)\)(?=\s*(AND|OR|$))/i\<close>\<close>

definition existsRegex :: re where
  "existsRegex =
     RSeqs [ROpt (RGrp 1 (RSeq (RStr ''NOT'') (RPlus RSpace))), RStr ''EXISTS'', RStar RSpace,
            RLit CHR ''('', RGrp 2 (RSeqs [RStr ''SELECT'', RPlus RSpace, RPlusLazy RDot]),
            RLit CHR '')'',
            RAhead (RSeq (RStar RSpace) (RGrp 3 (RAlt (RStr ''AND'') (RAlt (RStr ''OR'') REol))))]"

text \<open>\<^verbatim>\<open>/^(\w+\s+(?:NOT\s+)?IN\s*\()/i\<close>, matched at the head of \<^verbatim>\<open>whereClause.substr(i)\<close>\<close>

definition inProtectRegex :: re where
  "inProtectRegex =
     RGrp 1 (RSeqs [RPlus RWord, RPlus RSpace, ROpt (RSeq (RStr ''NOT'') (RPlus RSpace)),
                    RStr ''IN'', RStar RSpace, RLit CHR ''(''])"

text \<open>\<^verbatim>\<open>/\s+(AND|OR)\s+/i\<close> and \<^verbatim>\<open>/EXISTS/i\<close>\<close>

definition andOrRegex :: re where
  "andOrRegex = RSeqs [RPlus RSpace, RGrp 1 (RAlt (RStr ''AND'') (RStr ''OR'')), RPlus RSpace]"

definition existsWordRegex :: re where
  "existsWordRegex = RStr ''EXISTS''"

text \<open>
  The inner loop that looks for the closing parenthesis: it starts behind the opening
  parenthesis with depth 1 and returns the text up to and with the parenthesis that
  brings the depth to 0 (or all the text), and the text behind it.
\<close>

fun scan_parens :: "nat \<Rightarrow> string \<Rightarrow> string \<times> string" where
  "scan_parens parenDepth [] = ([], [])"
| "scan_parens parenDepth (x # xs) =
     (if parenDepth = 0 then ([], x # xs)
      else (case scan_parens (if x = CHR ''('' then parenDepth + 1
                              else if x = CHR '')'' then parenDepth - 1
                              else parenDepth) xs of
              (inside, rest) \<Rightarrow> (x # inside, rest)))"

text \<open>
  The loop of \<^verbatim>\<open>evaluateWhere\<close> that replaces every IN condition by a placeholder. The match
  of \<open>inProtectRegex\<close> is never empty, so the scan always moves on.
\<close>

fun protect_loop :: "string \<Rightarrow> string \<Rightarrow> string list \<Rightarrow> string \<times> string list" where
  "protect_loop [] processedClause protectedConditions = (processedClause, protectedConditions)"
| "protect_loop (x # xs) processedClause protectedConditions =
     (case re_match_anchored True inProtectRegex (x # xs) of
        Some (b, t, after, c) \<Rightarrow>
          (case scan_parens 1 after of
             (inside, rest) \<Rightarrow>
               if length rest < length (x # xs)
               then protect_loop rest
                      (processedClause @ ''__PROTECTED_''
                         @ show_nat (length protectedConditions) @ ''__'')
                      (protectedConditions @ [t @ inside])
               else (processedClause, protectedConditions))
      | None \<Rightarrow> protect_loop xs (processedClause @ [x]) protectedConditions)"

fun restore_protected :: "string \<Rightarrow> nat \<Rightarrow> string list \<Rightarrow> string" where
  "restore_protected actualCondition j [] = actualCondition"
| "restore_protected actualCondition j (p # ps) =
     restore_protected
       (js_replace actualCondition (''__PROTECTED_'' @ show_nat j @ ''__'') p) (Suc j) ps"

fun where_loop ::
  "(string \<Rightarrow> result comp) \<Rightarrow> row \<Rightarrow> string option \<Rightarrow> string list \<Rightarrow> string list
     \<Rightarrow> bool \<Rightarrow> string \<Rightarrow> bool comp" where
  "where_loop exec r tableName prot [] result operator st = (Inr result, st)"
| "where_loop exec r tableName prot (condition # rest) result operator st =
     (if toUpperCase condition = ''AND'' \<or> toUpperCase condition = ''OR''
      then where_loop exec r tableName prot rest result (toUpperCase condition) st
      else if re_test True existsWordRegex condition
      then where_loop exec r tableName prot rest result operator st
      else (case evaluateCondition exec r (restore_protected (js_trim condition) 0 prot)
                   tableName st of
              (Inl e, st') \<Rightarrow> (Inl e, st')
            | (Inr conditionResult, st') \<Rightarrow>
                where_loop exec r tableName prot rest
                  (if operator = ''AND'' then result \<and> conditionResult
                   else result \<or> conditionResult)
                  operator st'))"

text \<open>
  \<^verbatim>\<open>new RegExp(`${tableName}\\.${col}\\b`, 'gi')\<close>: the text \<open>tableName.col\<close> followed by a
  word boundary, when neither name holds an operator.
\<close>

definition correlate_regex :: "string \<Rightarrow> string \<Rightarrow> re option" where
  "correlate_regex tableName col =
     (if list_ex regex_operator (tableName @ col) then None
      else Some (RSeq (RStr (tableName @ ''.'' @ col))
                   (if js_word (last (''.'' @ col)) then RNotWordAhead else RWordAhead)))"

fun correlate_loop :: "string \<Rightarrow> row \<Rightarrow> string \<Rightarrow> error + string" where
  "correlate_loop tableName [] correlatedQuery = Inr correlatedQuery"
| "correlate_loop tableName ((col, v) # rest) correlatedQuery =
     (case correlate_regex tableName col of
        None \<Rightarrow> Inl Unmodelled
      | Some pattern \<Rightarrow>
          correlate_loop tableName rest
            (re_replace_all True pattern correlatedQuery (formatValue v)))"

definition correlateSubquery :: "string \<Rightarrow> row \<Rightarrow> string option \<Rightarrow> error + string" where
  "correlateSubquery subquery r tableName =
     (case tableName of
        None \<Rightarrow> Inr subquery
      | Some t \<Rightarrow> if t = [] then Inr subquery else correlate_loop t r subquery)"

definition evaluateExistsCondition ::
  "(row \<Rightarrow> string \<Rightarrow> string option \<Rightarrow> bool comp) \<Rightarrow> (string \<Rightarrow> result comp)
     \<Rightarrow> row \<Rightarrow> string \<Rightarrow> rmatch \<Rightarrow> string option \<Rightarrow> bool comp" where
  "evaluateExistsCondition evalWhere exec r whereClause existsMatch tableName =
     (let fullMatch = matched existsMatch;
          isNotExists = (case grp existsMatch 1 of
                           Some notKeyword \<Rightarrow>
                             notKeyword \<noteq> [] \<and> toUpperCase (js_trim notKeyword) = ''NOT''
                         | None \<Rightarrow> False)
      in case correlateSubquery (grp_str existsMatch 2) r tableName of
           Inl e \<Rightarrow> throw e
         | Inr subqueryWithValues \<Rightarrow>
             try_rethrow ''Subquery error: ''
               (bind (exec subqueryWithValues)
                  (\<lambda>subqueryResult.
                     let exists = (case subqueryResult of Rows (r0 # rs) \<Rightarrow> True | _ \<Rightarrow> False);
                         conditionResult = (if isNotExists then \<not> exists else exists);
                         remainingWhere = js_trim (js_replace whereClause fullMatch [])
                     in if remainingWhere \<noteq> []
                        then bind (evalWhere r remainingWhere tableName)
                               (\<lambda>remainingResult. ret (conditionResult \<and> remainingResult))
                        else ret conditionResult)))"

text \<open>
  The body of \<^verbatim>\<open>evaluateWhere\<close>; \<open>evalWhere\<close> and \<open>exec\<close> stand for \<^verbatim>\<open>this.evaluateWhere\<close> and
  \<^verbatim>\<open>this.execute\<close>.
\<close>

definition evaluateWhere_body ::
  "(row \<Rightarrow> string \<Rightarrow> string option \<Rightarrow> bool comp) \<Rightarrow> (string \<Rightarrow> result comp)
     \<Rightarrow> row \<Rightarrow> string \<Rightarrow> string option \<Rightarrow> bool comp" where
  "evaluateWhere_body evalWhere exec r whereClause tableName =
     (case re_match True existsRegex whereClause of
        Some existsMatch \<Rightarrow>
          evaluateExistsCondition evalWhere exec r whereClause existsMatch tableName
      | None \<Rightarrow>
          (case protect_loop whereClause [] [] of
             (processedClause, protectedConditions) \<Rightarrow>
               where_loop exec r tableName protectedConditions
                 (re_split True andOrRegex 1 processedClause) True ''AND''))"

subsection \<open>GROUP BY\<close>

record row_group =
  group_rows :: "row list"
  group_keys :: row

text \<open>
  One step of the first loop of \<^verbatim>\<open>groupBy\<close>: the group key is the text of the row's values
  for the group columns, joined by a bar; a new key opens a group that remembers those
  values; the row is pushed on its group.
\<close>

definition group_step :: "string list \<Rightarrow> row_group obj \<Rightarrow> row \<Rightarrow> row_group obj" where
  "group_step groupColumns groups r =
     (let groupKey =
            js_join (map (\<lambda>col. join_text (row_get r (strip_table col))) groupColumns) ''|''
      in case obj_lookup groups groupKey of
           None \<Rightarrow>
             obj_set groups groupKey
               \<lparr>group_rows = [r],
                group_keys = foldl (\<lambda>ks col. obj_set ks col (row_get r (strip_table col)))
                               [] groupColumns\<rparr>
         | Some g \<Rightarrow> obj_set groups groupKey (g\<lparr>group_rows := group_rows g @ [r]\<rparr>))"

text \<open>
  The second loop: the output row of a group is a copy of the remembered key values, then
  every field of the group's first row whose name is not a group column. No aggregate is
  computed here.
\<close>

definition aggregate_group :: "string list \<Rightarrow> row_group \<Rightarrow> row" where
  "aggregate_group groupColumns g =
     (case group_rows g of
        [] \<Rightarrow> group_keys g
      | first # others \<Rightarrow>
          foldl (\<lambda>aggregated col.
                   if \<not> List.member groupColumns col
                   then obj_set aggregated col (row_get first col) else aggregated)
            (group_keys g) (obj_keys first))"

definition groupBy ::
  "(row \<Rightarrow> string \<Rightarrow> string option \<Rightarrow> bool comp) \<Rightarrow> row list \<Rightarrow> string \<Rightarrow> string option
     \<Rightarrow> string \<Rightarrow> row list comp" where
  "groupBy evalWhere data groupByClause havingClause tableName =
     (let groupColumns = map js_trim (js_split groupByClause '','');
          groups = foldl (group_step groupColumns) [] data;
          result = map (aggregate_group groupColumns) (obj_values groups)
      in case havingClause of
           Some h \<Rightarrow> filter_rows (\<lambda>r. evalWhere r h (Some tableName)) result
         | None \<Rightarrow> ret result)"

subsection \<open>LIMIT and DISTINCT\<close>

text \<open>
  \<^verbatim>\<open>parseInt(s)\<close>: leading white space, a sign, then the longest run of decimal digits;
  \<open>None\<close> is \<^verbatim>\<open>NaN\<close>.
\<close>

definition js_parseInt :: "string \<Rightarrow> int option" where
  "js_parseInt s =
     (let t = dropWhile js_space s;
          neg = js_startsWith t ''-'';
          u = (if js_startsWith t ''-'' \<or> js_startsWith t ''+'' then tl t else t);
          ds = takeWhile js_digit u
      in if ds = [] then None
         else Some (if neg then - int (nat_of_digits ds) else int (nat_of_digits ds)))"

text \<open>\<^verbatim>\<open>data.slice(start, end)\<close>; a \<^verbatim>\<open>NaN\<close> bound counts as 0, a negative one from the end.\<close>

definition slice_index :: "nat \<Rightarrow> int option \<Rightarrow> nat" where
  "slice_index len i =
     (case i of
        None \<Rightarrow> 0
      | Some k \<Rightarrow> if k < 0 then nat (max (int len + k) 0) else nat (min k (int len)))"

definition js_slice :: "'a list \<Rightarrow> int option \<Rightarrow> int option \<Rightarrow> 'a list" where
  "js_slice xs start fin =
     take (slice_index (length xs) fin - slice_index (length xs) start)
       (drop (slice_index (length xs) start) xs)"

definition js_add :: "int option \<Rightarrow> int option \<Rightarrow> int option" where
  "js_add a b = (case (a, b) of (Some x, Some y) \<Rightarrow> Some (x + y) | _ \<Rightarrow> None)"

text \<open>\<^verbatim>\<open>/(\d+)(?:\s+OFFSET\s+(\d+))?/i\<close>\<close>

definition limitRegex :: re where
  "limitRegex =
     RSeq (RGrp 1 (RPlus RDigit))
       (ROpt (RSeqs [RPlus RSpace, RStr ''OFFSET'', RPlus RSpace, RGrp 2 (RPlus RDigit)]))"

definition applyLimit :: "row list \<Rightarrow> string \<Rightarrow> row list" where
  "applyLimit data limitClause =
     (case map (\<lambda>p. js_parseInt (js_trim p)) (js_split limitClause '','') of
        [offset, cnt] \<Rightarrow> js_slice data offset (js_add offset cnt)
      | _ \<Rightarrow>
          (case re_match True limitRegex limitClause of
             Some m \<Rightarrow>
               let cnt = js_parseInt (grp_str m 1);
                   offset = (case clause m 2 of Some t \<Rightarrow> js_parseInt t | None \<Rightarrow> Some 0)
               in js_slice data offset (js_add offset cnt)
           | None \<Rightarrow> data))"

fun distinct_loop :: "('a \<Rightarrow> 'k) \<Rightarrow> 'k list \<Rightarrow> 'a list \<Rightarrow> 'a list" where
  "distinct_loop key seen [] = []"
| "distinct_loop key seen (r # rs) =
     (if List.member seen (key r) then distinct_loop key seen rs
      else r # distinct_loop key (key r # seen) rs)"

text \<open>
  \<^verbatim>\<open>applyDistinct\<close>: the key of a row is its JSON text (the fields in order, without the
  undefined ones) for \<^verbatim>\<open>*\<close>, and the joined text of the listed columns otherwise.
\<close>

definition applyDistinct :: "row list \<Rightarrow> string \<Rightarrow> row list" where
  "applyDistinct data cols =
     (if js_trim cols = ''*'' then distinct_loop json_row [] data
      else distinct_loop
             (\<lambda>r. js_join (map (\<lambda>col. join_text (row_get r col))
                              (map js_trim (js_split cols '',''))) ''|'')
             [] data)"

subsection \<open>Projected expressions\<close>

text \<open>\<^verbatim>\<open>/COUNT\s*\(\s*\*\s*\)/i\<close> and \<^verbatim>\<open>/NAME\s*\(\s*(\w+)\s*\)/i\<close> for a function \<open>NAME\<close>\<close>

definition countStarRegex :: re where
  "countStarRegex =
     RSeqs [RStr ''COUNT'', RStar RSpace, RLit CHR ''('', RStar RSpace, RLit CHR ''*'',
            RStar RSpace, RLit CHR '')'']"

definition callRegex :: "string \<Rightarrow> re" where
  "callRegex name =
     RSeqs [RStr name, RStar RSpace, RLit CHR ''('', RStar RSpace, RGrp 1 (RPlus RWord),
            RStar RSpace, RLit CHR '')'']"

text \<open>\<^verbatim>\<open>/CONCAT\s*\((.*)\)/i\<close> and \<^verbatim>\<open>/^(\w+)$/\<close>\<close>

definition concatRegex :: re where
  "concatRegex =
     RSeqs [RStr ''CONCAT'', RStar RSpace, RLit CHR ''('', RGrp 1 (RStar RDot), RLit CHR '')'']"

definition wordOnlyRegex :: re where
  "wordOnlyRegex = RSeq (RGrp 1 (RPlus RWord)) REol"

definition concat_part :: "row \<Rightarrow> string \<Rightarrow> jsval" where
  "concat_part r p =
     (let trimmed = js_trim p in
      case re_match_anchored False wordOnlyRegex trimmed of
        Some m \<Rightarrow> (if truthy (row_get r trimmed) then row_get r trimmed else Str [])
      | None \<Rightarrow> parseValue trimmed)"

definition evaluateExpression :: "string \<Rightarrow> row \<Rightarrow> jsval" where
  "evaluateExpression e r =
     (let expr = js_trim e in
      if re_test True countStarRegex expr
      then (if row_get r ''COUNT(*)'' \<noteq> Undefined then row_get r ''COUNT(*)'' else Num 1)
      else case re_match True (callRegex ''COUNT'') expr of
        Some m \<Rightarrow> (if row_get r (matched m) \<noteq> Undefined then row_get r (matched m) else Num 0)
      | None \<Rightarrow>
      (case re_match True (callRegex ''UPPER'') expr of
        Some m \<Rightarrow>
          (if truthy (row_get r (grp_str m 1))
           then Str (toUpperCase (js_String (row_get r (grp_str m 1)))) else Null)
      | None \<Rightarrow>
      (case re_match True (callRegex ''LOWER'') expr of
        Some m \<Rightarrow>
          (if truthy (row_get r (grp_str m 1))
           then Str (toLowerCase (js_String (row_get r (grp_str m 1)))) else Null)
      | None \<Rightarrow>
      (case re_match True (callRegex ''LENGTH'') expr of
        Some m \<Rightarrow>
          (if truthy (row_get r (grp_str m 1))
           then Num (int (length (js_String (row_get r (grp_str m 1))))) else Num 0)
      | None \<Rightarrow>
      (case re_match True concatRegex expr of
        Some m \<Rightarrow>
          Str (concat (map (\<lambda>p. join_text (concat_part r p)) (js_split (grp_str m 1) '','')))
      | None \<Rightarrow> row_get r (strip_table expr))))))"

text \<open>The projection of one row on the selected columns of a plain SELECT.\<close>

definition project_row :: "string list \<Rightarrow> row \<Rightarrow> row" where
  "project_row selectedColumns r =
     foldl (\<lambda>selected col. obj_set selected col (evaluateExpression col r)) [] selectedColumns"

subsection \<open>Joins\<close>

definition mergeRows :: "row \<Rightarrow> row \<Rightarrow> string \<Rightarrow> string \<Rightarrow> row" where
  "mergeRows row1 row2 table1Name table2Name =
     foldl (\<lambda>merged key. obj_set merged (table2Name @ ''.'' @ key) (row_get row2 key))
       (foldl (\<lambda>merged key. obj_set merged (table1Name @ ''.'' @ key) (row_get row1 key))
          [] (obj_keys row1))
       (obj_keys row2)"

text \<open>\<^verbatim>\<open>/(\w+)\.(\w+)\s*=\s*(\w+)\.(\w+)/\<close>\<close>

definition onRegex :: re where
  "onRegex =
     RSeqs [RGrp 1 (RPlus RWord), RLit CHR ''.'', RGrp 2 (RPlus RWord), RStar RSpace,
            RLit CHR ''='', RStar RSpace, RGrp 3 (RPlus RWord), RLit CHR ''.'',
            RGrp 4 (RPlus RWord)]"

text \<open>\<^verbatim>\<open>Object.keys(data[0] || {})\<close> with every key set to \<^verbatim>\<open>null\<close>\<close>

definition null_row :: "row list \<Rightarrow> row" where
  "null_row data =
     foldl (\<lambda>nullRow key. obj_set nullRow key Null) []
       (case data of [] \<Rightarrow> [] | first # others \<Rightarrow> obj_keys first)"

definition left_join_row ::
  "row list \<Rightarrow> string \<Rightarrow> string \<Rightarrow> string \<Rightarrow> string \<Rightarrow> row \<Rightarrow> row list" where
  "left_join_row data2Actual table1 table2 key1 key2 row1 =
     (let hits = filter (\<lambda>row2. js_eq (row_get row1 key1) (row_get row2 key2)) data2Actual in
      if hits \<noteq> [] then map (\<lambda>row2. mergeRows row1 row2 table1 table2) hits
      else [mergeRows row1 (null_row data2Actual) table1 table2])"

definition right_join_row ::
  "row list \<Rightarrow> string \<Rightarrow> string \<Rightarrow> string \<Rightarrow> string \<Rightarrow> row \<Rightarrow> row list" where
  "right_join_row data1Actual table1 table2 key1 key2 row2 =
     (let hits = filter (\<lambda>row1. js_eq (row_get row1 key1) (row_get row2 key2)) data1Actual in
      if hits \<noteq> [] then map (\<lambda>row1. mergeRows row1 row2 table1 table2) hits
      else [mergeRows (null_row data1Actual) row2 table1 table2])"

definition performJoin ::
  "row list \<Rightarrow> row list \<Rightarrow> string \<Rightarrow> string \<Rightarrow> string option \<Rightarrow> string
     \<Rightarrow> error + row list" where
  "performJoin data1 data2 table1Name table2Name onClause joinType =
     (if joinType = ''CROSS JOIN''
      then Inr (concat (map (\<lambda>row1. map (\<lambda>row2. mergeRows row1 row2 table1Name table2Name)
                                        data2) data1))
      else case onClause of
        None \<Rightarrow> Inl NativeError
      | Some oc \<Rightarrow>
      (case re_match False onRegex oc of
        None \<Rightarrow> Inl (Error ''Invalid ON clause syntax'')
      | Some onMatch \<Rightarrow>
          let t1 = grp_str onMatch 1; col1 = grp_str onMatch 2;
              t2 = grp_str onMatch 3; col2 = grp_str onMatch 4;
              table1 = (if toLowerCase t1 = toLowerCase table1Name
                        then table1Name else table2Name);
              table2 = (if toLowerCase t2 = toLowerCase table1Name
                        then table1Name else table2Name);
              key1 = (if toLowerCase t1 = toLowerCase table1Name then col1 else col2);
              key2 = (if toLowerCase t2 = toLowerCase table1Name then col2 else col1);
              data1Actual = (if table1 = table1Name then data1 else data2);
              data2Actual = (if table2 = table1Name then data1 else data2)
          in if joinType = ''INNER JOIN'' \<or> joinType = ''JOIN''
             then Inr (concat (map (\<lambda>row1.
                         map (\<lambda>row2. mergeRows row1 row2 table1 table2)
                           (filter (\<lambda>row2. js_eq (row_get row1 key1) (row_get row2 key2))
                              data2Actual)) data1Actual))
             else if joinType = ''LEFT JOIN''
             then Inr (concat (map (left_join_row data2Actual table1 table2 key1 key2)
                                 data1Actual))
             else if joinType = ''RIGHT JOIN''
             then Inr (concat (map (right_join_row data1Actual table1 table2 key1 key2)
                                 data2Actual))
             else Inr []))"

subsection \<open>SELECT\<close>

text \<open>\<^verbatim>\<open>/\s+UNION\s+/i\<close>, \<^verbatim>\<open>/\s+UNION\s+ALL\s+/i\<close> and \<^verbatim>\<open>/\s+JOIN\s+/i\<close>\<close>

definition unionRegex :: re where
  "unionRegex = RSeqs [RPlus RSpace, RStr ''UNION'', RPlus RSpace]"

definition unionAllRegex :: re where
  "unionAllRegex =
     RSeqs [RPlus RSpace, RStr ''UNION'', RPlus RSpace, RStr ''ALL'', RPlus RSpace]"

definition joinRegex :: re where
  "joinRegex = RSeqs [RPlus RSpace, RStr ''JOIN'', RPlus RSpace]"

text \<open>
  The \<^verbatim>\<open>forEach\<close> of \<^verbatim>\<open>selectWithUnion\<close>: every piece is trimmed, run through
  \<^verbatim>\<open>this.select\<close> (here \<open>sel\<close>) and its rows are appended.
\<close>

fun union_loop :: "(string \<Rightarrow> row list comp) \<Rightarrow> string list \<Rightarrow> row list \<Rightarrow> row list comp" where
  "union_loop sel [] results st = (Inr results, st)"
| "union_loop sel (selectQuery # rest) results st =
     (case sel (js_trim selectQuery) st of
        (Inl e, st') \<Rightarrow> (Inl e, st')
      | (Inr subResults, st') \<Rightarrow> union_loop sel rest (results @ subResults) st')"

definition selectWithUnion :: "(string \<Rightarrow> row list comp) \<Rightarrow> string \<Rightarrow> row list comp" where
  "selectWithUnion sel query =
     (let isUnionAll = re_test True unionAllRegex query;
          selectQueries = re_split True (if isUnionAll then unionAllRegex else unionRegex) 0 query
      in if length selectQueries < 2 then throw (Error ''Invalid UNION syntax'')
         else bind (union_loop sel selectQueries [])
                (\<lambda>results. ret (if \<not> isUnionAll then applyDistinct results ''*''
                                 else results)))"

text \<open>
  \<^verbatim>\<open>/FROM\s+(\w+)\s+(INNER\s+JOIN|LEFT\s+JOIN|RIGHT\s+JOIN|CROSS\s+JOIN|JOIN)\s+(\w+)\<close>
  \<^verbatim>\<open>(?:\s+ON\s+(.+?))?(?:\s+WHERE\s+(.+?))?(?:\s+ORDER\s+BY\s+(.+?))?(?:\s+LIMIT\s+(.+))?$/i\<close>
\<close>

definition fromJoinRegex :: re where
  "fromJoinRegex =
     RSeqs [RStr ''FROM'', RPlus RSpace, RGrp 1 (RPlus RWord), RPlus RSpace,
            RGrp 2 (RAlt (RSeqs [RStr ''INNER'', RPlus RSpace, RStr ''JOIN''])
                   (RAlt (RSeqs [RStr ''LEFT'', RPlus RSpace, RStr ''JOIN''])
                   (RAlt (RSeqs [RStr ''RIGHT'', RPlus RSpace, RStr ''JOIN''])
                   (RAlt (RSeqs [RStr ''CROSS'', RPlus RSpace, RStr ''JOIN''])
                         (RStr ''JOIN''))))),
            RPlus RSpace, RGrp 3 (RPlus RWord),
            ROpt (RSeqs [RPlus RSpace, RStr ''ON'', RPlus RSpace, RGrp 4 (RPlusLazy RDot)]),
            ROpt (RSeqs [RPlus RSpace, RStr ''WHERE'', RPlus RSpace, RGrp 5 (RPlusLazy RDot)]),
            ROpt (RSeqs [RPlus RSpace, RStr ''ORDER'', RPlus RSpace, RStr ''BY'', RPlus RSpace,
                         RGrp 6 (RPlusLazy RDot)]),
            ROpt (RSeqs [RPlus RSpace, RStr ''LIMIT'', RPlus RSpace, RGrp 7 (RPlus RDot)]),
            REol]"

text \<open>\<^verbatim>\<open>/SELECT\s+(.*?)\s+FROM/i\<close>\<close>

definition selectColumnsRegex :: re where
  "selectColumnsRegex =
     RSeqs [RStr ''SELECT'', RPlus RSpace, RGrp 1 (RStarLazy RDot), RPlus RSpace, RStr ''FROM'']"

definition selectWithJoin ::
  "(row \<Rightarrow> string \<Rightarrow> string option \<Rightarrow> bool comp) \<Rightarrow> string \<Rightarrow> row list comp" where
  "selectWithJoin evalWhere query st =
     (case re_match True fromJoinRegex query of
        None \<Rightarrow> (Inl (Error ''Invalid JOIN syntax''), st)
      | Some fromJoinMatch \<Rightarrow>
          let table1Name = grp_str fromJoinMatch 1;
              joinType = toUpperCase (grp_str fromJoinMatch 2);
              table2Name = grp_str fromJoinMatch 3;
              onClause = clause fromJoinMatch 4
          in if onClause = None \<and> \<not> js_includes joinType ''CROSS''
             then (Inl (Error ''ON clause is required for this JOIN type''), st)
             else (case re_match True selectColumnsRegex query of
               None \<Rightarrow> (Inl (Error ''Invalid SELECT syntax''), st)
             | Some selectMatch \<Rightarrow>
                 if \<not> obj_has (tables st) table1Name
                 then (Inl (Error (''Table '' @ table1Name @ '' does not exist'')), st)
                 else if \<not> obj_has (tables st) table2Name
                 then (Inl (Error (''Table '' @ table2Name @ '' does not exist'')), st)
                 else
                   (case performJoin (getTableData st table1Name) (getTableData st table2Name)
                           table1Name table2Name onClause joinType of
                      Inl e \<Rightarrow> (Inl e, st)
                    | Inr joinedData \<Rightarrow>
                        bind (case clause fromJoinMatch 5 of
                                Some whereClause \<Rightarrow>
                                  filter_rows (\<lambda>r. evalWhere r whereClause None) joinedData
                              | None \<Rightarrow> ret joinedData)
                          (\<lambda>filtered.
                             let ordered = (case clause fromJoinMatch 6 of
                                             Some orderByClause \<Rightarrow> orderBy filtered orderByClause
                                           | None \<Rightarrow> filtered);
                                 limited = (case clause fromJoinMatch 7 of
                                              Some limitClause \<Rightarrow> applyLimit ordered limitClause
                                            | None \<Rightarrow> ordered);
                                 cols = js_trim (grp_str selectMatch 1)
                             in ret (if cols \<noteq> ''*''
                                     then map (\<lambda>r. foldl (\<lambda>selected col.
                                                           obj_set selected col (row_get r col))
                                                    [] (map js_trim (js_split cols '','')))
                                            limited
                                     else limited))
                          st)))"

text \<open>\<^verbatim>\<open>/FROM\s+\(\s*(SELECT\s+.+?)\s*\)\s+AS\s+(\w+)/i\<close>\<close>

definition derivedTableRegex :: re where
  "derivedTableRegex =
     RSeqs [RStr ''FROM'', RPlus RSpace, RLit CHR ''('', RStar RSpace,
            RGrp 1 (RSeqs [RStr ''SELECT'', RPlus RSpace, RPlusLazy RDot]),
            RStar RSpace, RLit CHR '')'', RPlus RSpace, RStr ''AS'', RPlus RSpace,
            RGrp 2 (RPlus RWord)]"

text \<open>
  \<^verbatim>\<open>/SELECT\s+(DISTINCT\s+)?(.*?)\s+FROM\s+(\w+)(?:\s+WHERE\s+(.+?))?(?:\s+GROUP\s+BY\s+(.+?))?\<close>
  \<^verbatim>\<open>(?:\s+HAVING\s+(.+?))?(?:\s+ORDER\s+BY\s+(.+?))?(?:\s+LIMIT\s+(.+))?$/i\<close>
\<close>

definition selectRegex :: re where
  "selectRegex =
     RSeqs [RStr ''SELECT'', RPlus RSpace,
            ROpt (RGrp 1 (RSeq (RStr ''DISTINCT'') (RPlus RSpace))),
            RGrp 2 (RStarLazy RDot), RPlus RSpace, RStr ''FROM'', RPlus RSpace,
            RGrp 3 (RPlus RWord),
            ROpt (RSeqs [RPlus RSpace, RStr ''WHERE'', RPlus RSpace, RGrp 4 (RPlusLazy RDot)]),
            ROpt (RSeqs [RPlus RSpace, RStr ''GROUP'', RPlus RSpace, RStr ''BY'', RPlus RSpace,
                         RGrp 5 (RPlusLazy RDot)]),
            ROpt (RSeqs [RPlus RSpace, RStr ''HAVING'', RPlus RSpace, RGrp 6 (RPlusLazy RDot)]),
            ROpt (RSeqs [RPlus RSpace, RStr ''ORDER'', RPlus RSpace, RStr ''BY'', RPlus RSpace,
                         RGrp 7 (RPlusLazy RDot)]),
            ROpt (RSeqs [RPlus RSpace, RStr ''LIMIT'', RPlus RSpace, RGrp 8 (RPlus RDot)]),
            REol]"

text \<open>
  The part of \<^verbatim>\<open>select\<close> behind the derived-table block: a SELECT on one stored table.
\<close>

definition select_table ::
  "(row \<Rightarrow> string \<Rightarrow> string option \<Rightarrow> bool comp) \<Rightarrow> string \<Rightarrow> row list comp" where
  "select_table evalWhere query st =
     (case re_match True selectRegex query of
        None \<Rightarrow> (Inl (Error ''Invalid SELECT syntax''), st)
      | Some m \<Rightarrow>
          let cols = grp_str m 2; tableName = grp_str m 3 in
          if \<not> obj_has (tables st) tableName
          then (Inl (Error (''Table '' @ tableName @ '' does not exist'')), st)
          else
            bind (case clause m 4 of
                    Some whereClause \<Rightarrow>
                      filter_rows (\<lambda>r. evalWhere r whereClause (Some tableName))
                        (getTableData st tableName)
                  | None \<Rightarrow> ret (getTableData st tableName))
              (\<lambda>filtered.
                 bind (case clause m 5 of
                         Some groupByClause \<Rightarrow>
                           groupBy evalWhere filtered groupByClause (clause m 6) tableName
                       | None \<Rightarrow> ret filtered)
                   (\<lambda>grouped.
                      let ordered = (case clause m 7 of
                                      Some orderByClause \<Rightarrow> orderBy grouped orderByClause
                                    | None \<Rightarrow> grouped);
                          limited = (case clause m 8 of
                                       Some limitClause \<Rightarrow> applyLimit ordered limitClause
                                     | None \<Rightarrow> ordered);
                          uniq = (case clause m 1 of
                                    Some distinctKeyword \<Rightarrow> applyDistinct limited cols
                                  | None \<Rightarrow> limited)
                      in ret (if js_trim cols \<noteq> ''*''
                              then map (project_row (map js_trim (js_split cols '',''))) uniq
                              else uniq)))
              st)"

text \<open>
  The derived-table block of \<^verbatim>\<open>select\<close>. The subquery's rows are stored under the alias
  and, when no table of that name exists, a schema entry is made for them; the statement
  is run again with the alias in place of the subquery; then the stored rows are removed
  and the former table, if there was one, is written back. All of this is the body of a
  \<^verbatim>\<open>try\<close> whose \<^verbatim>\<open>catch\<close> only throws the error again under a longer message.
\<close>

definition derived_columns :: "row list \<Rightarrow> string obj" where
  "derived_columns subqueryResult =
     (case subqueryResult of
        [] \<Rightarrow> []
      | first # others \<Rightarrow> foldl (\<lambda>cols col. obj_set cols col ''TEXT'') [] (obj_keys first))"

definition register_derived :: "string \<Rightarrow> row list \<Rightarrow> db \<Rightarrow> db" where
  "register_derived derivedTableName subqueryResult st =
     (let st1 = saveTableData derivedTableName subqueryResult st in
      if \<not> obj_has (tables st1) derivedTableName
      then st1\<lparr>tables := obj_set (tables st1) derivedTableName
                 \<lparr>columns = derived_columns subqueryResult, primaryKey = None\<rparr>\<rparr>
      else st1)"

definition clear_derived ::
  "string \<Rightarrow> table_schema option \<Rightarrow> row list \<Rightarrow> db \<Rightarrow> db" where
  "clear_derived derivedTableName originalSchema originalTableData st =
     (let st1 = removeItem derivedTableName st in
      case originalSchema of
        None \<Rightarrow> st1\<lparr>tables := filter (\<lambda>(k, v). k \<noteq> derivedTableName) (tables st1)\<rparr>
      | Some schema \<Rightarrow>
          saveTableData derivedTableName originalTableData
            (st1\<lparr>tables := obj_set (tables st1) derivedTableName schema\<rparr>))"

definition select_derived ::
  "(string \<Rightarrow> row list comp) \<Rightarrow> string \<Rightarrow> rmatch \<Rightarrow> row list comp" where
  "select_derived sel query derivedTableMatch =
     (let subquery = grp_str derivedTableMatch 1;
          derivedTableName = grp_str derivedTableMatch 2
      in try_rethrow ''Derived table error: ''
           (bind (sel subquery)
              (\<lambda>subqueryResult st.
                 let originalTableData = getTableData st derivedTableName;
                     originalSchema = obj_lookup (tables st) derivedTableName;
                     modifiedQuery = re_replace True derivedTableRegex query
                                       (''FROM '' @ derivedTableName)
                 in bind (sel modifiedQuery)
                      (\<lambda>result st'.
                         (Inr result,
                          clear_derived derivedTableName originalSchema originalTableData st'))
                      (register_derived derivedTableName subqueryResult st))))"

text \<open>
  The body of \<^verbatim>\<open>select\<close>; \<open>sel\<close> and \<open>evalWhere\<close> stand for \<^verbatim>\<open>this.select\<close> and
  \<^verbatim>\<open>this.evaluateWhere\<close>.
\<close>

definition select_body ::
  "(string \<Rightarrow> row list comp) \<Rightarrow> (row \<Rightarrow> string \<Rightarrow> string option \<Rightarrow> bool comp)
     \<Rightarrow> string \<Rightarrow> row list comp" where
  "select_body sel evalWhere query =
     (if re_test True unionRegex query then selectWithUnion sel query
      else if re_test True joinRegex query then selectWithJoin evalWhere query
      else case re_match True derivedTableRegex query of
             Some derivedTableMatch \<Rightarrow> select_derived sel query derivedTableMatch
           | None \<Rightarrow> select_table evalWhere query)"

subsection \<open>UPDATE and DELETE\<close>

text \<open>\<^verbatim>\<open>/UPDATE\s+(\w+)\s+SET\s+(.*?)(?:\s+WHERE\s+(.+))?$/i\<close>\<close>

definition updateRegex :: re where
  "updateRegex =
     RSeqs [RStr ''UPDATE'', RPlus RSpace, RGrp 1 (RPlus RWord), RPlus RSpace, RStr ''SET'',
            RPlus RSpace, RGrp 2 (RStarLazy RDot),
            ROpt (RSeqs [RPlus RSpace, RStr ''WHERE'', RPlus RSpace, RGrp 3 (RPlus RDot)]),
            REol]"

text \<open>
  The assignments of the SET clause. A part without an equals sign leaves \<^verbatim>\<open>val\<close>
  undefined, and \<^verbatim>\<open>parseValue(undefined)\<close> throws a \<^verbatim>\<open>TypeError\<close>.
\<close>

fun parse_updates :: "string list \<Rightarrow> row \<Rightarrow> error + row" where
  "parse_updates [] updates = Inr updates"
| "parse_updates (part # rest) updates =
     (case map js_trim (js_split part ''='') of
        col # val # others \<Rightarrow> parse_updates rest (obj_set updates col (parseValue val))
      | _ \<Rightarrow> Inl NativeError)"

text \<open>\<^verbatim>\<open>Object.assign(row, updates)\<close>\<close>

definition object_assign :: "row \<Rightarrow> row \<Rightarrow> row" where
  "object_assign r updates = foldl (\<lambda>r' (k, v). obj_set r' k v) r updates"

text \<open>
  The \<^verbatim>\<open>data.map\<close> of \<^verbatim>\<open>update\<close>: the rows with the assignments applied where the
  predicate holds, and the number of rows changed.
\<close>

fun update_rows :: "(row \<Rightarrow> bool comp) \<Rightarrow> row \<Rightarrow> row list \<Rightarrow> (row list \<times> nat) comp" where
  "update_rows p updates [] st = (Inr ([], 0), st)"
| "update_rows p updates (r # rs) st =
     (case p r st of
        (Inl e, st') \<Rightarrow> (Inl e, st')
      | (Inr b, st') \<Rightarrow>
          (case update_rows p updates rs st' of
             (Inl e, st'') \<Rightarrow> (Inl e, st'')
           | (Inr (rs', n), st'') \<Rightarrow>
               (Inr ((if b then object_assign r updates else r) # rs', if b then Suc n else n),
                st'')))"

definition update_stmt ::
  "(row \<Rightarrow> string \<Rightarrow> string option \<Rightarrow> bool comp) \<Rightarrow> string \<Rightarrow> result comp" where
  "update_stmt evalWhere query st =
     (case re_match True updateRegex query of
        None \<Rightarrow> (Inl (Error ''Invalid UPDATE syntax''), st)
      | Some m \<Rightarrow>
          let tableName = grp_str m 1 in
          if \<not> obj_has (tables st) tableName
          then (Inl (Error (''Table '' @ tableName @ '' does not exist'')), st)
          else (case parse_updates (js_split (grp_str m 2) '','') [] of
            Inl e \<Rightarrow> (Inl e, st)
          | Inr updates \<Rightarrow>
              (case update_rows
                      (\<lambda>r. case clause m 3 of
                              Some whereClause \<Rightarrow> evalWhere r whereClause (Some tableName)
                            | None \<Rightarrow> ret True)
                      updates (getTableData st tableName) st of
                 (Inl e, st') \<Rightarrow> (Inl e, st')
               | (Inr (data, updatedCount), st') \<Rightarrow>
                   (Inr (Status (show_nat updatedCount @ '' rows updated in '' @ tableName)),
                    saveTableData tableName data st'))))"

text \<open>\<^verbatim>\<open>/DELETE\s+FROM\s+(\w+)(?:\s+WHERE\s+(.+))?$/i\<close>\<close>

definition deleteRegex :: re where
  "deleteRegex =
     RSeqs [RStr ''DELETE'', RPlus RSpace, RStr ''FROM'', RPlus RSpace, RGrp 1 (RPlus RWord),
            ROpt (RSeqs [RPlus RSpace, RStr ''WHERE'', RPlus RSpace, RGrp 2 (RPlus RDot)]),
            REol]"

definition delete_stmt ::
  "(row \<Rightarrow> string \<Rightarrow> string option \<Rightarrow> bool comp) \<Rightarrow> string \<Rightarrow> result comp" where
  "delete_stmt evalWhere query st =
     (case re_match True deleteRegex query of
        None \<Rightarrow> (Inl (Error ''Invalid DELETE syntax''), st)
      | Some m \<Rightarrow>
          let tableName = grp_str m 1 in
          if \<not> obj_has (tables st) tableName
          then (Inl (Error (''Table '' @ tableName @ '' does not exist'')), st)
          else
            (case (case clause m 2 of
                     Some whereClause \<Rightarrow>
                       filter_rows
                         (\<lambda>r. bind (evalWhere r whereClause (Some tableName))
                                 (\<lambda>b. ret (\<not> b)))
                         (getTableData st tableName) st
                   | None \<Rightarrow> (Inr [], st)) of
               (Inl e, st') \<Rightarrow> (Inl e, st')
             | (Inr data, st') \<Rightarrow>
                 (Inr (Status (show_nat (length (getTableData st tableName) - length data)
                                 @ '' rows deleted from '' @ tableName)),
                  saveTableData tableName data st')))"

subsection \<open>The entry point\<close>

definition execute_body ::
  "(string \<Rightarrow> row list comp) \<Rightarrow> (row \<Rightarrow> string \<Rightarrow> string option \<Rightarrow> bool comp)
     \<Rightarrow> string \<Rightarrow> result comp" where
  "execute_body sel evalWhere q =
     try_rethrow ''Query execution failed: ''
       (let query = js_trim q in
        if query = [] then throw (Error ''Query cannot be empty'')
        else if js_startsWith (toUpperCase query) ''CREATE TABLE'' then createTable query
        else if js_startsWith (toUpperCase query) ''INSERT INTO'' then insert_stmt query
        else if js_startsWith (toUpperCase query) ''SELECT''
        then bind (sel query) (\<lambda>rs. ret (Rows rs))
        else if js_startsWith (toUpperCase query) ''UPDATE'' then update_stmt evalWhere query
        else if js_startsWith (toUpperCase query) ''DELETE'' then delete_stmt evalWhere query
        else throw (Error (''Unknown SQL command. Supported commands: ''
                             @ ''CREATE TABLE, INSERT, SELECT, UPDATE, DELETE'')))"

text \<open>
  The three methods that call each other, tied together on the fuel: a call of
  \<^verbatim>\<open>this.select\<close>, \<^verbatim>\<open>this.evaluateWhere\<close> or \<^verbatim>\<open>this.execute\<close> from inside one of them takes
  one unit.
\<close>

fun select :: "nat \<Rightarrow> string \<Rightarrow> row list comp"
  and evaluateWhere :: "nat \<Rightarrow> row \<Rightarrow> string \<Rightarrow> string option \<Rightarrow> bool comp"
  and execute :: "nat \<Rightarrow> string \<Rightarrow> result comp" where
  "select 0 query st = (Inl OutOfFuel, st)"
| "select (Suc n) query st = select_body (select n) (evaluateWhere n) query st"
| "evaluateWhere 0 r whereClause tableName st = (Inl OutOfFuel, st)"
| "evaluateWhere (Suc n) r whereClause tableName st =
     evaluateWhere_body (evaluateWhere n) (execute n) r whereClause tableName st"
| "execute 0 query st = (Inl OutOfFuel, st)"
| "execute (Suc n) query st = execute_body (select n) (evaluateWhere n) query st"

section \<open>Example data\<close>

definition ex_rows :: "row list" where
  "ex_rows = [[(''k'', Num 1), (''v'', Str ''a'')], [(''k'', Num 1), (''v'', Str ''b'')]]"

text \<open>
  The table \<^verbatim>\<open>users\<close> of the repository's documentation with its two rows, as
  \<^verbatim>\<open>CREATE TABLE users (id INTEGER PRIMARY KEY, name TEXT, age INTEGER)\<close> and two INSERT
  statements leave it.
\<close>

definition users_schema :: table_schema where
  "users_schema =
     \<lparr>columns = [(''id'', ''INTEGER PRIMARY KEY''), (''name'', ''TEXT''), (''age'', ''INTEGER'')],
      primaryKey = Some ''id''\<rparr>"

definition users_rows :: "row list" where
  "users_rows = [[(''id'', Num 1), (''name'', Str ''John''), (''age'', Num 30)],
                 [(''id'', Num 2), (''name'', Str ''Jane''), (''age'', Num 28)]]"

definition users_db :: db where
  "users_db = \<lparr>tables = [(''users'', users_schema)],
                stored_schema = Some [(''users'', users_schema)],
                stored_rows = [''users'' \<mapsto> users_rows]\<rparr>"


text \<open>A row whose name is null.\<close>

definition null_name_row :: row where
  "null_name_row = [(''id'', Num 1), (''name'', Null)]"

text \<open>
  The table \<^verbatim>\<open>orders\<close> of the documentation, after the rows \<^verbatim>\<open>(1, 1, 100)\<close>, \<^verbatim>\<open>(2, 1, 200)\<close>
  and \<^verbatim>\<open>(3, 2, 150)\<close> were inserted, alone in a database and next to \<^verbatim>\<open>users\<close> and an empty
  table \<^verbatim>\<open>refunds\<close>.
\<close>

definition orders_schema :: table_schema where
  "orders_schema =
     \<lparr>columns = [(''id'', ''INTEGER PRIMARY KEY''), (''user_id'', ''INTEGER''),
                 (''amount'', ''INTEGER'')],
      primaryKey = Some ''id''\<rparr>"

definition orders_rows :: "row list" where
  "orders_rows = [[(''id'', Num 1), (''user_id'', Num 1), (''amount'', Num 100)],
                  [(''id'', Num 2), (''user_id'', Num 1), (''amount'', Num 200)],
                  [(''id'', Num 3), (''user_id'', Num 2), (''amount'', Num 150)]]"

definition orders_db :: db where
  "orders_db = \<lparr>tables = [(''orders'', orders_schema)],
                 stored_schema = Some [(''orders'', orders_schema)],
                 stored_rows = [''orders'' \<mapsto> orders_rows]\<rparr>"

definition refunds_schema :: table_schema where
  "refunds_schema =
     \<lparr>columns = [(''id'', ''INTEGER PRIMARY KEY''), (''user_id'', ''INTEGER'')],
      primaryKey = Some ''id''\<rparr>"

definition shop_tables :: "table_schema obj" where
  "shop_tables =
     [(''users'', users_schema), (''orders'', orders_schema), (''refunds'', refunds_schema)]"

definition shop_db :: db where
  "shop_db = \<lparr>tables = shop_tables, stored_schema = Some shop_tables,
               stored_rows = [''users'' \<mapsto> users_rows, ''orders'' \<mapsto> orders_rows,
                              ''refunds'' \<mapsto> []]\<rparr>"

text \<open>The statements that the theorems below run.\<close>

definition group_query :: string where
  "group_query = ''SELECT user_id, COUNT(*) FROM orders GROUP BY user_id''"

definition having_query :: string where
  "having_query =
     ''SELECT user_id, COUNT(*) FROM orders GROUP BY user_id HAVING COUNT(*) > 1''"

definition union_in_subquery :: string where
  "union_in_subquery =
     ''SELECT * FROM users WHERE id IN ''
       @ ''(SELECT user_id FROM orders UNION SELECT user_id FROM refunds)''"

definition derived_failing :: string where
  "derived_failing =
     ''SELECT * FROM (SELECT * FROM users) AS orders ''
       @ ''WHERE id IN (SELECT x FROM missing)''"

definition delete_failing :: string where
  "delete_failing =
     ''DELETE FROM users WHERE EXISTS (SELECT * FROM (SELECT * FROM orders) AS users ''
       @ ''WHERE id IN (SELECT x FROM missing))''"

definition left_join_reversed :: string where
  "left_join_reversed =
     ''SELECT * FROM users LEFT JOIN refunds ON refunds.user_id = users.id''"

text \<open>The number of parentheses open at the end of a text.\<close>

definition paren_depth :: "string \<Rightarrow> int" where
  "paren_depth s =
     int (length (filter (\<lambda>c. c = CHR ''('') s)) - int (length (filter (\<lambda>c. c = CHR '')'') s))"

section \<open>Evaluation of the matcher\<close>

text \<open>
  The equations of \<open>rx\<close> are used for evaluation only once the subject string is known to
  be empty or not, so that nothing is unfolded under a continuation; the length test of
  the starred expressions is made in one pass.
\<close>

lemma length_less_shorter: "(length xs < length ys) = shorter xs ys"
  by (induction xs ys rule: shorter.induct) auto

lemmas rx_eval =
  rx.simps [where s = "[]", unfolded length_less_shorter]
  rx.simps [where s = "x # xs" for x xs, unfolded length_less_shorter]

declare rx.simps [simp del]
declare rx_eval [simp]

section \<open>Character tables\<close>

text \<open>
  The character functions on the characters of ASCII text, as tables: an evaluation
  looks a character up in one step.
\<close>

lemma js_space_table:
  "js_space CHR 0x09 = True"
  "js_space CHR 0x0A = True"
  "js_space CHR 0x0B = True"
  "js_space CHR 0x0C = True"
  "js_space CHR 0x0D = True"
  "js_space CHR 0x20 = True"
  "js_space CHR 0x21 = False"
  "js_space CHR 0x22 = False"
  "js_space CHR 0x23 = False"
  "js_space CHR 0x24 = False"
  "js_space CHR 0x25 = False"
  "js_space CHR 0x26 = False"
  "js_space CHR 0x27 = False"
  "js_space CHR 0x28 = False"
  "js_space CHR 0x29 = False"
  "js_space CHR 0x2A = False"
  "js_space CHR 0x2B = False"
  "js_space CHR 0x2C = False"
  "js_space CHR 0x2D = False"
  "js_space CHR 0x2E = False"
  "js_space CHR 0x2F = False"
  "js_space CHR ''0'' = False"
  "js_space CHR ''1'' = False"
  "js_space CHR ''2'' = False"
  "js_space CHR ''3'' = False"
  "js_space CHR ''4'' = False"
  "js_space CHR ''5'' = False"
  "js_space CHR ''6'' = False"
  "js_space CHR ''7'' = False"
  "js_space CHR ''8'' = False"
  "js_space CHR ''9'' = False"
  "js_space CHR 0x3A = False"
  "js_space CHR 0x3B = False"
  "js_space CHR 0x3C = False"
  "js_space CHR 0x3D = False"
  "js_space CHR 0x3E = False"
  "js_space CHR 0x3F = False"
  "js_space CHR 0x40 = False"
  "js_space CHR ''A'' = False"
  "js_space CHR ''B'' = False"
  "js_space CHR ''C'' = False"
  "js_space CHR ''D'' = False"
  "js_space CHR ''E'' = False"
  "js_space CHR ''F'' = False"
  "js_space CHR ''G'' = False"
  "js_space CHR ''H'' = False"
  "js_space CHR ''I'' = False"
  "js_space CHR ''J'' = False"
  "js_space CHR ''K'' = False"
  "js_space CHR ''L'' = False"
  "js_space CHR ''M'' = False"
  "js_space CHR ''N'' = False"
  "js_space CHR ''O'' = False"
  "js_space CHR ''P'' = False"
  "js_space CHR ''Q'' = False"
  "js_space CHR ''R'' = False"
  "js_space CHR ''S'' = False"
  "js_space CHR ''T'' = False"
  "js_space CHR ''U'' = False"
  "js_space CHR ''V'' = False"
  "js_space CHR ''W'' = False"
  "js_space CHR ''X'' = False"
  "js_space CHR ''Y'' = False"
  "js_space CHR ''Z'' = False"
  "js_space CHR 0x5B = False"
  "js_space CHR 0x5C = False"
  "js_space CHR 0x5D = False"
  "js_space CHR 0x5E = False"
  "js_space CHR 0x5F = False"
  "js_space CHR 0x60 = False"
  "js_space CHR ''a'' = False"
  "js_space CHR ''b'' = False"
  "js_space CHR ''c'' = False"
  "js_space CHR ''d'' = False"
  "js_space CHR ''e'' = False"
  "js_space CHR ''f'' = False"
  "js_space CHR ''g'' = False"
  "js_space CHR ''h'' = False"
  "js_space CHR ''i'' = False"
  "js_space CHR ''j'' = False"
  "js_space CHR ''k'' = False"
  "js_space CHR ''l'' = False"
  "js_space CHR ''m'' = False"
  "js_space CHR ''n'' = False"
  "js_space CHR ''o'' = False"
  "js_space CHR ''p'' = False"
  "js_space CHR ''q'' = False"
  "js_space CHR ''r'' = False"
  "js_space CHR ''s'' = False"
  "js_space CHR ''t'' = False"
  "js_space CHR ''u'' = False"
  "js_space CHR ''v'' = False"
  "js_space CHR ''w'' = False"
  "js_space CHR ''x'' = False"
  "js_space CHR ''y'' = False"
  "js_space CHR ''z'' = False"
  "js_space CHR 0x7B = False"
  "js_space CHR 0x7C = False"
  "js_space CHR 0x7D = False"
  "js_space CHR 0x7E = False"
  "js_space CHR 0xA0 = True"
  by (simp_all add: js_space_def)

lemma js_word_table:
  "js_word CHR 0x09 = False"
  "js_word CHR 0x0A = False"
  "js_word CHR 0x0B = False"
  "js_word CHR 0x0C = False"
  "js_word CHR 0x0D = False"
  "js_word CHR 0x20 = False"
  "js_word CHR 0x21 = False"
  "js_word CHR 0x22 = False"
  "js_word CHR 0x23 = False"
  "js_word CHR 0x24 = False"
  "js_word CHR 0x25 = False"
  "js_word CHR 0x26 = False"
  "js_word CHR 0x27 = False"
  "js_word CHR 0x28 = False"
  "js_word CHR 0x29 = False"
  "js_word CHR 0x2A = False"
  "js_word CHR 0x2B = False"
  "js_word CHR 0x2C = False"
  "js_word CHR 0x2D = False"
  "js_word CHR 0x2E = False"
  "js_word CHR 0x2F = False"
  "js_word CHR ''0'' = True"
  "js_word CHR ''1'' = True"
  "js_word CHR ''2'' = True"
  "js_word CHR ''3'' = True"
  "js_word CHR ''4'' = True"
  "js_word CHR ''5'' = True"
  "js_word CHR ''6'' = True"
  "js_word CHR ''7'' = True"
  "js_word CHR ''8'' = True"
  "js_word CHR ''9'' = True"
  "js_word CHR 0x3A = False"
  "js_word CHR 0x3B = False"
  "js_word CHR 0x3C = False"
  "js_word CHR 0x3D = False"
  "js_word CHR 0x3E = False"
  "js_word CHR 0x3F = False"
  "js_word CHR 0x40 = False"
  "js_word CHR ''A'' = True"
  "js_word CHR ''B'' = True"
  "js_word CHR ''C'' = True"
  "js_word CHR ''D'' = True"
  "js_word CHR ''E'' = True"
  "js_word CHR ''F'' = True"
  "js_word CHR ''G'' = True"
  "js_word CHR ''H'' = True"
  "js_word CHR ''I'' = True"
  "js_word CHR ''J'' = True"
  "js_word CHR ''K'' = True"
  "js_word CHR ''L'' = True"
  "js_word CHR ''M'' = True"
  "js_word CHR ''N'' = True"
  "js_word CHR ''O'' = True"
  "js_word CHR ''P'' = True"
  "js_word CHR ''Q'' = True"
  "js_word CHR ''R'' = True"
  "js_word CHR ''S'' = True"
  "js_word CHR ''T'' = True"
  "js_word CHR ''U'' = True"
  "js_word CHR ''V'' = True"
  "js_word CHR ''W'' = True"
  "js_word CHR ''X'' = True"
  "js_word CHR ''Y'' = True"
  "js_word CHR ''Z'' = True"
  "js_word CHR 0x5B = False"
  "js_word CHR 0x5C = False"
  "js_word CHR 0x5D = False"
  "js_word CHR 0x5E = False"
  "js_word CHR 0x5F = True"
  "js_word CHR 0x60 = False"
  "js_word CHR ''a'' = True"
  "js_word CHR ''b'' = True"
  "js_word CHR ''c'' = True"
  "js_word CHR ''d'' = True"
  "js_word CHR ''e'' = True"
  "js_word CHR ''f'' = True"
  "js_word CHR ''g'' = True"
  "js_word CHR ''h'' = True"
  "js_word CHR ''i'' = True"
  "js_word CHR ''j'' = True"
  "js_word CHR ''k'' = True"
  "js_word CHR ''l'' = True"
  "js_word CHR ''m'' = True"
  "js_word CHR ''n'' = True"
  "js_word CHR ''o'' = True"
  "js_word CHR ''p'' = True"
  "js_word CHR ''q'' = True"
  "js_word CHR ''r'' = True"
  "js_word CHR ''s'' = True"
  "js_word CHR ''t'' = True"
  "js_word CHR ''u'' = True"
  "js_word CHR ''v'' = True"
  "js_word CHR ''w'' = True"
  "js_word CHR ''x'' = True"
  "js_word CHR ''y'' = True"
  "js_word CHR ''z'' = True"
  "js_word CHR 0x7B = False"
  "js_word CHR 0x7C = False"
  "js_word CHR 0x7D = False"
  "js_word CHR 0x7E = False"
  "js_word CHR 0xA0 = False"
  by (simp_all add: js_word_def lower_letters_def upper_letters_def decimal_digits_def)

lemma js_digit_table:
  "js_digit CHR 0x09 = False"
  "js_digit CHR 0x0A = False"
  "js_digit CHR 0x0B = False"
  "js_digit CHR 0x0C = False"
  "js_digit CHR 0x0D = False"
  "js_digit CHR 0x20 = False"
  "js_digit CHR 0x21 = False"
  "js_digit CHR 0x22 = False"
  "js_digit CHR 0x23 = False"
  "js_digit CHR 0x24 = False"
  "js_digit CHR 0x25 = False"
  "js_digit CHR 0x26 = False"
  "js_digit CHR 0x27 = False"
  "js_digit CHR 0x28 = False"
  "js_digit CHR 0x29 = False"
  "js_digit CHR 0x2A = False"
  "js_digit CHR 0x2B = False"
  "js_digit CHR 0x2C = False"
  "js_digit CHR 0x2D = False"
  "js_digit CHR 0x2E = False"
  "js_digit CHR 0x2F = False"
  "js_digit CHR ''0'' = True"
  "js_digit CHR ''1'' = True"
  "js_digit CHR ''2'' = True"
  "js_digit CHR ''3'' = True"
  "js_digit CHR ''4'' = True"
  "js_digit CHR ''5'' = True"
  "js_digit CHR ''6'' = True"
  "js_digit CHR ''7'' = True"
  "js_digit CHR ''8'' = True"
  "js_digit CHR ''9'' = True"
  "js_digit CHR 0x3A = False"
  "js_digit CHR 0x3B = False"
  "js_digit CHR 0x3C = False"
  "js_digit CHR 0x3D = False"
  "js_digit CHR 0x3E = False"
  "js_digit CHR 0x3F = False"
  "js_digit CHR 0x40 = False"
  "js_digit CHR ''A'' = False"
  "js_digit CHR ''B'' = False"
  "js_digit CHR ''C'' = False"
  "js_digit CHR ''D'' = False"
  "js_digit CHR ''E'' = False"
  "js_digit CHR ''F'' = False"
  "js_digit CHR ''G'' = False"
  "js_digit CHR ''H'' = False"
  "js_digit CHR ''I'' = False"
  "js_digit CHR ''J'' = False"
  "js_digit CHR ''K'' = False"
  "js_digit CHR ''L'' = False"
  "js_digit CHR ''M'' = False"
  "js_digit CHR ''N'' = False"
  "js_digit CHR ''O'' = False"
  "js_digit CHR ''P'' = False"
  "js_digit CHR ''Q'' = False"
  "js_digit CHR ''R'' = False"
  "js_digit CHR ''S'' = False"
  "js_digit CHR ''T'' = False"
  "js_digit CHR ''U'' = False"
  "js_digit CHR ''V'' = False"
  "js_digit CHR ''W'' = False"
  "js_digit CHR ''X'' = False"
  "js_digit CHR ''Y'' = False"
  "js_digit CHR ''Z'' = False"
  "js_digit CHR 0x5B = False"
  "js_digit CHR 0x5C = False"
  "js_digit CHR 0x5D = False"
  "js_digit CHR 0x5E = False"
  "js_digit CHR 0x5F = False"
  "js_digit CHR 0x60 = False"
  "js_digit CHR ''a'' = False"
  "js_digit CHR ''b'' = False"
  "js_digit CHR ''c'' = False"
  "js_digit CHR ''d'' = False"
  "js_digit CHR ''e'' = False"
  "js_digit CHR ''f'' = False"
  "js_digit CHR ''g'' = False"
  "js_digit CHR ''h'' = False"
  "js_digit CHR ''i'' = False"
  "js_digit CHR ''j'' = False"
  "js_digit CHR ''k'' = False"
  "js_digit CHR ''l'' = False"
  "js_digit CHR ''m'' = False"
  "js_digit CHR ''n'' = False"
  "js_digit CHR ''o'' = False"
  "js_digit CHR ''p'' = False"
  "js_digit CHR ''q'' = False"
  "js_digit CHR ''r'' = False"
  "js_digit CHR ''s'' = False"
  "js_digit CHR ''t'' = False"
  "js_digit CHR ''u'' = False"
  "js_digit CHR ''v'' = False"
  "js_digit CHR ''w'' = False"
  "js_digit CHR ''x'' = False"
  "js_digit CHR ''y'' = False"
  "js_digit CHR ''z'' = False"
  "js_digit CHR 0x7B = False"
  "js_digit CHR 0x7C = False"
  "js_digit CHR 0x7D = False"
  "js_digit CHR 0x7E = False"
  "js_digit CHR 0xA0 = False"
  by (simp_all add: js_digit_def decimal_digits_def)

lemma toUpperChar_table:
  "toUpperChar CHR 0x09 = CHR 0x09"
  "toUpperChar CHR 0x0A = CHR 0x0A"
  "toUpperChar CHR 0x0B = CHR 0x0B"
  "toUpperChar CHR 0x0C = CHR 0x0C"
  "toUpperChar CHR 0x0D = CHR 0x0D"
  "toUpperChar CHR 0x20 = CHR 0x20"
  "toUpperChar CHR 0x21 = CHR 0x21"
  "toUpperChar CHR 0x22 = CHR 0x22"
  "toUpperChar CHR 0x23 = CHR 0x23"
  "toUpperChar CHR 0x24 = CHR 0x24"
  "toUpperChar CHR 0x25 = CHR 0x25"
  "toUpperChar CHR 0x26 = CHR 0x26"
  "toUpperChar CHR 0x27 = CHR 0x27"
  "toUpperChar CHR 0x28 = CHR 0x28"
  "toUpperChar CHR 0x29 = CHR 0x29"
  "toUpperChar CHR 0x2A = CHR 0x2A"
  "toUpperChar CHR 0x2B = CHR 0x2B"
  "toUpperChar CHR 0x2C = CHR 0x2C"
  "toUpperChar CHR 0x2D = CHR 0x2D"
  "toUpperChar CHR 0x2E = CHR 0x2E"
  "toUpperChar CHR 0x2F = CHR 0x2F"
  "toUpperChar CHR ''0'' = CHR ''0''"
  "toUpperChar CHR ''1'' = CHR ''1''"
  "toUpperChar CHR ''2'' = CHR ''2''"
  "toUpperChar CHR ''3'' = CHR ''3''"
  "toUpperChar CHR ''4'' = CHR ''4''"
  "toUpperChar CHR ''5'' = CHR ''5''"
  "toUpperChar CHR ''6'' = CHR ''6''"
  "toUpperChar CHR ''7'' = CHR ''7''"
  "toUpperChar CHR ''8'' = CHR ''8''"
  "toUpperChar CHR ''9'' = CHR ''9''"
  "toUpperChar CHR 0x3A = CHR 0x3A"
  "toUpperChar CHR 0x3B = CHR 0x3B"
  "toUpperChar CHR 0x3C = CHR 0x3C"
  "toUpperChar CHR 0x3D = CHR 0x3D"
  "toUpperChar CHR 0x3E = CHR 0x3E"
  "toUpperChar CHR 0x3F = CHR 0x3F"
  "toUpperChar CHR 0x40 = CHR 0x40"
  "toUpperChar CHR ''A'' = CHR ''A''"
  "toUpperChar CHR ''B'' = CHR ''B''"
  "toUpperChar CHR ''C'' = CHR ''C''"
  "toUpperChar CHR ''D'' = CHR ''D''"
  "toUpperChar CHR ''E'' = CHR ''E''"
  "toUpperChar CHR ''F'' = CHR ''F''"
  "toUpperChar CHR ''G'' = CHR ''G''"
  "toUpperChar CHR ''H'' = CHR ''H''"
  "toUpperChar CHR ''I'' = CHR ''I''"
  "toUpperChar CHR ''J'' = CHR ''J''"
  "toUpperChar CHR ''K'' = CHR ''K''"
  "toUpperChar CHR ''L'' = CHR ''L''"
  "toUpperChar CHR ''M'' = CHR ''M''"
  "toUpperChar CHR ''N'' = CHR ''N''"
  "toUpperChar CHR ''O'' = CHR ''O''"
  "toUpperChar CHR ''P'' = CHR ''P''"
  "toUpperChar CHR ''Q'' = CHR ''Q''"
  "toUpperChar CHR ''R'' = CHR ''R''"
  "toUpperChar CHR ''S'' = CHR ''S''"
  "toUpperChar CHR ''T'' = CHR ''T''"
  "toUpperChar CHR ''U'' = CHR ''U''"
  "toUpperChar CHR ''V'' = CHR ''V''"
  "toUpperChar CHR ''W'' = CHR ''W''"
  "toUpperChar CHR ''X'' = CHR ''X''"
  "toUpperChar CHR ''Y'' = CHR ''Y''"
  "toUpperChar CHR ''Z'' = CHR ''Z''"
  "toUpperChar CHR 0x5B = CHR 0x5B"
  "toUpperChar CHR 0x5C = CHR 0x5C"
  "toUpperChar CHR 0x5D = CHR 0x5D"
  "toUpperChar CHR 0x5E = CHR 0x5E"
  "toUpperChar CHR 0x5F = CHR 0x5F"
  "toUpperChar CHR 0x60 = CHR 0x60"
  "toUpperChar CHR ''a'' = CHR ''A''"
  "toUpperChar CHR ''b'' = CHR ''B''"
  "toUpperChar CHR ''c'' = CHR ''C''"
  "toUpperChar CHR ''d'' = CHR ''D''"
  "toUpperChar CHR ''e'' = CHR ''E''"
  "toUpperChar CHR ''f'' = CHR ''F''"
  "toUpperChar CHR ''g'' = CHR ''G''"
  "toUpperChar CHR ''h'' = CHR ''H''"
  "toUpperChar CHR ''i'' = CHR ''I''"
  "toUpperChar CHR ''j'' = CHR ''J''"
  "toUpperChar CHR ''k'' = CHR ''K''"
  "toUpperChar CHR ''l'' = CHR ''L''"
  "toUpperChar CHR ''m'' = CHR ''M''"
  "toUpperChar CHR ''n'' = CHR ''N''"
  "toUpperChar CHR ''o'' = CHR ''O''"
  "toUpperChar CHR ''p'' = CHR ''P''"
  "toUpperChar CHR ''q'' = CHR ''Q''"
  "toUpperChar CHR ''r'' = CHR ''R''"
  "toUpperChar CHR ''s'' = CHR ''S''"
  "toUpperChar CHR ''t'' = CHR ''T''"
  "toUpperChar CHR ''u'' = CHR ''U''"
  "toUpperChar CHR ''v'' = CHR ''V''"
  "toUpperChar CHR ''w'' = CHR ''W''"
  "toUpperChar CHR ''x'' = CHR ''X''"
  "toUpperChar CHR ''y'' = CHR ''Y''"
  "toUpperChar CHR ''z'' = CHR ''Z''"
  "toUpperChar CHR 0x7B = CHR 0x7B"
  "toUpperChar CHR 0x7C = CHR 0x7C"
  "toUpperChar CHR 0x7D = CHR 0x7D"
  "toUpperChar CHR 0x7E = CHR 0x7E"
  "toUpperChar CHR 0xA0 = CHR 0xA0"
  by (simp_all add: toUpperChar_def lower_letters_def upper_letters_def)

lemma toLowerChar_table:
  "toLowerChar CHR 0x09 = CHR 0x09"
  "toLowerChar CHR 0x0A = CHR 0x0A"
  "toLowerChar CHR 0x0B = CHR 0x0B"
  "toLowerChar CHR 0x0C = CHR 0x0C"
  "toLowerChar CHR 0x0D = CHR 0x0D"
  "toLowerChar CHR 0x20 = CHR 0x20"
  "toLowerChar CHR 0x21 = CHR 0x21"
  "toLowerChar CHR 0x22 = CHR 0x22"
  "toLowerChar CHR 0x23 = CHR 0x23"
  "toLowerChar CHR 0x24 = CHR 0x24"
  "toLowerChar CHR 0x25 = CHR 0x25"
  "toLowerChar CHR 0x26 = CHR 0x26"
  "toLowerChar CHR 0x27 = CHR 0x27"
  "toLowerChar CHR 0x28 = CHR 0x28"
  "toLowerChar CHR 0x29 = CHR 0x29"
  "toLowerChar CHR 0x2A = CHR 0x2A"
  "toLowerChar CHR 0x2B = CHR 0x2B"
  "toLowerChar CHR 0x2C = CHR 0x2C"
  "toLowerChar CHR 0x2D = CHR 0x2D"
  "toLowerChar CHR 0x2E = CHR 0x2E"
  "toLowerChar CHR 0x2F = CHR 0x2F"
  "toLowerChar CHR ''0'' = CHR ''0''"
  "toLowerChar CHR ''1'' = CHR ''1''"
  "toLowerChar CHR ''2'' = CHR ''2''"
  "toLowerChar CHR ''3'' = CHR ''3''"
  "toLowerChar CHR ''4'' = CHR ''4''"
  "toLowerChar CHR ''5'' = CHR ''5''"
  "toLowerChar CHR ''6'' = CHR ''6''"
  "toLowerChar CHR ''7'' = CHR ''7''"
  "toLowerChar CHR ''8'' = CHR ''8''"
  "toLowerChar CHR ''9'' = CHR ''9''"
  "toLowerChar CHR 0x3A = CHR 0x3A"
  "toLowerChar CHR 0x3B = CHR 0x3B"
  "toLowerChar CHR 0x3C = CHR 0x3C"
  "toLowerChar CHR 0x3D = CHR 0x3D"
  "toLowerChar CHR 0x3E = CHR 0x3E"
  "toLowerChar CHR 0x3F = CHR 0x3F"
  "toLowerChar CHR 0x40 = CHR 0x40"
  "toLowerChar CHR ''A'' = CHR ''a''"
  "toLowerChar CHR ''B'' = CHR ''b''"
  "toLowerChar CHR ''C'' = CHR ''c''"
  "toLowerChar CHR ''D'' = CHR ''d''"
  "toLowerChar CHR ''E'' = CHR ''e''"
  "toLowerChar CHR ''F'' = CHR ''f''"
  "toLowerChar CHR ''G'' = CHR ''g''"
  "toLowerChar CHR ''H'' = CHR ''h''"
  "toLowerChar CHR ''I'' = CHR ''i''"
  "toLowerChar CHR ''J'' = CHR ''j''"
  "toLowerChar CHR ''K'' = CHR ''k''"
  "toLowerChar CHR ''L'' = CHR ''l''"
  "toLowerChar CHR ''M'' = CHR ''m''"
  "toLowerChar CHR ''N'' = CHR ''n''"
  "toLowerChar CHR ''O'' = CHR ''o''"
  "toLowerChar CHR ''P'' = CHR ''p''"
  "toLowerChar CHR ''Q'' = CHR ''q''"
  "toLowerChar CHR ''R'' = CHR ''r''"
  "toLowerChar CHR ''S'' = CHR ''s''"
  "toLowerChar CHR ''T'' = CHR ''t''"
  "toLowerChar CHR ''U'' = CHR ''u''"
  "toLowerChar CHR ''V'' = CHR ''v''"
  "toLowerChar CHR ''W'' = CHR ''w''"
  "toLowerChar CHR ''X'' = CHR ''x''"
  "toLowerChar CHR ''Y'' = CHR ''y''"
  "toLowerChar CHR ''Z'' = CHR ''z''"
  "toLowerChar CHR 0x5B = CHR 0x5B"
  "toLowerChar CHR 0x5C = CHR 0x5C"
  "toLowerChar CHR 0x5D = CHR 0x5D"
  "toLowerChar CHR 0x5E = CHR 0x5E"
  "toLowerChar CHR 0x5F = CHR 0x5F"
  "toLowerChar CHR 0x60 = CHR 0x60"
  "toLowerChar CHR ''a'' = CHR ''a''"
  "toLowerChar CHR ''b'' = CHR ''b''"
  "toLowerChar CHR ''c'' = CHR ''c''"
  "toLowerChar CHR ''d'' = CHR ''d''"
  "toLowerChar CHR ''e'' = CHR ''e''"
  "toLowerChar CHR ''f'' = CHR ''f''"
  "toLowerChar CHR ''g'' = CHR ''g''"
  "toLowerChar CHR ''h'' = CHR ''h''"
  "toLowerChar CHR ''i'' = CHR ''i''"
  "toLowerChar CHR ''j'' = CHR ''j''"
  "toLowerChar CHR ''k'' = CHR ''k''"
  "toLowerChar CHR ''l'' = CHR ''l''"
  "toLowerChar CHR ''m'' = CHR ''m''"
  "toLowerChar CHR ''n'' = CHR ''n''"
  "toLowerChar CHR ''o'' = CHR ''o''"
  "toLowerChar CHR ''p'' = CHR ''p''"
  "toLowerChar CHR ''q'' = CHR ''q''"
  "toLowerChar CHR ''r'' = CHR ''r''"
  "toLowerChar CHR ''s'' = CHR ''s''"
  "toLowerChar CHR ''t'' = CHR ''t''"
  "toLowerChar CHR ''u'' = CHR ''u''"
  "toLowerChar CHR ''v'' = CHR ''v''"
  "toLowerChar CHR ''w'' = CHR ''w''"
  "toLowerChar CHR ''x'' = CHR ''x''"
  "toLowerChar CHR ''y'' = CHR ''y''"
  "toLowerChar CHR ''z'' = CHR ''z''"
  "toLowerChar CHR 0x7B = CHR 0x7B"
  "toLowerChar CHR 0x7C = CHR 0x7C"
  "toLowerChar CHR 0x7D = CHR 0x7D"
  "toLowerChar CHR 0x7E = CHR 0x7E"
  "toLowerChar CHR 0xA0 = CHR 0xA0"
  by (simp_all add: toLowerChar_def lower_letters_def upper_letters_def)

section \<open>Evaluation rules\<close>

text \<open>The defining equations that an evaluation of the model on concrete input unfolds.\<close>

lemmas str_eval = js_space_table js_word_table js_digit_table toUpperChar_table
  toLowerChar_table decimal_digits_def toUpperCase_def toLowerCase_def
  js_trim_def js_endsWith_def js_split_def js_replace_def

lemmas re_eval = match_here_def re_match_def re_test_def re_match_anchored_def grp_def
  matched_def re_replace_def re_replace_all_def re_split_def RPlus_def RPlusLazy_def ROpt_def
  grp_str_def clause_def

lemmas val_eval = digit_val_def nat_of_digits_def int_literal_def show_int_def show_nat.simps
  js_lt_def js_gt_def js_le_def js_ge_def array_index_def obj_set_def row_get_def
  obj_keys_def obj_values_def json_row_def json_rows_def parseValue_def parseValues_def
  formatValue_def strip_table_def first_value_def

lemmas comp_eval = ret_def throw_def bind_def try_rethrow_def getTableData_def
  saveTableData_def removeItem_def saveSchema_def Let_def

lemmas cond_eval = likeRegex_def notInRegex_def inRegex_def betweenRegex_def isNullRegex_def
  regex_operator_def like_item_def like_regex_def like_subject_def like_condition_def
  in_values_def operators_def switch_op_def comparison_def evaluateCondition_def

lemmas where_eval = existsRegex_def inProtectRegex_def andOrRegex_def existsWordRegex_def
  correlate_regex_def correlateSubquery_def evaluateExistsCondition_def evaluateWhere_body_def

lemmas select_eval = whitespaceRegex_def orderBy_part_def orderBy_parts_def orderBy_def
  js_sort_def group_step_def aggregate_group_def groupBy_def js_parseInt_def slice_index_def
  js_slice_def js_add_def limitRegex_def applyLimit_def applyDistinct_def countStarRegex_def
  callRegex_def concatRegex_def wordOnlyRegex_def concat_part_def evaluateExpression_def
  project_row_def unionRegex_def unionAllRegex_def joinRegex_def selectWithUnion_def
  derivedTableRegex_def selectRegex_def select_table_def derived_columns_def
  register_derived_def clear_derived_def select_derived_def select_body_def

lemmas join_eval = mergeRows_def onRegex_def null_row_def left_join_row_def
  right_join_row_def performJoin_def fromJoinRegex_def selectColumnsRegex_def
  selectWithJoin_def

lemmas stmt_eval = createTableRegex_def primaryKeyRegex_def extractPrimaryKey_def
  add_column_def createTable_def insertRegex_def insert_row_def insert_stmt_def
  updateRegex_def object_assign_def update_stmt_def deleteRegex_def delete_stmt_def
  execute_body_def

lemmas ex_eval = ex_rows_def users_schema_def users_rows_def users_db_def orders_schema_def
  orders_rows_def orders_db_def refunds_schema_def shop_tables_def shop_db_def

lemmas all_eval = stmt_eval select_eval join_eval where_eval cond_eval str_eval re_eval
  val_eval comp_eval

text \<open>The fuel as a numeral.\<close>

lemma fuel_numeral:
  "select (numeral k) query st
     = select_body (select (pred_numeral k)) (evaluateWhere (pred_numeral k)) query st"
  "evaluateWhere (numeral k) r whereClause tableName st
     = evaluateWhere_body (evaluateWhere (pred_numeral k)) (execute (pred_numeral k))
         r whereClause tableName st"
  "execute (numeral k) query st
     = execute_body (select (pred_numeral k)) (evaluateWhere (pred_numeral k)) query st"
  by (simp_all add: numeral_eq_Suc)

lemma fuel_one:
  "select 1 query st = select_body (select 0) (evaluateWhere 0) query st"
  "evaluateWhere 1 r whereClause tableName st
     = evaluateWhere_body (evaluateWhere 0) (execute 0) r whereClause tableName st"
  "execute 1 query st = execute_body (select 0) (evaluateWhere 0) query st"
  by simp_all

lemmas fuel_eval = fuel_numeral fuel_one

section \<open>Facts about objects\<close>





















section \<open>UNION inside a subquery\<close>

text \<open>
  Claim C1 at the statement
  \<^verbatim>\<open>SELECT * FROM users WHERE id IN (SELECT user_id FROM orders UNION SELECT user_id FROM refunds)\<close>.
  \<^verbatim>\<open>select\<close> tests the whole text for \<^verbatim>\<open>UNION\<close> and \<^verbatim>\<open>selectWithUnion\<close> splits it at every
  match, whatever the parentheses: the statement is cut inside its IN list, where one
  parenthesis is open, the first piece selects no row, the second piece is no SELECT
  statement, and the statement fails.
\<close>

theorem union_in_subquery_splits:
  "re_test True unionRegex union_in_subquery
   \<and> re_split True unionRegex 0 union_in_subquery
       = [''SELECT * FROM users WHERE id IN (SELECT user_id FROM orders'',
          ''SELECT user_id FROM refunds)'']
   \<and> paren_depth ''SELECT * FROM users WHERE id IN (SELECT user_id FROM orders'' = 1
   \<and> execute 10 union_in_subquery shop_db
       = (Inl (Error ''Query execution failed: Invalid SELECT syntax''), shop_db)"
  by (simp add: fuel_eval union_in_subquery_def paren_depth_def ex_eval all_eval)

section \<open>GROUP BY computes no aggregate\<close>

text \<open>
  Claim C2 on the three orders rows. \<^verbatim>\<open>groupBy\<close> copies the group columns and the other
  fields of each group's first row and computes no aggregate, so its rows carry no field
  \<^verbatim>\<open>COUNT(*)\<close>. With \<^verbatim>\<open>HAVING COUNT(*) > 1\<close> the condition reads a missing field in every
  group and no group is returned; without HAVING the projection reports the count 1 for
  the group of \<^verbatim>\<open>user_id = 1\<close>, which has two rows.
\<close>

theorem group_by_having_count:
  "execute 10 having_query orders_db = (Inr (Rows []), orders_db)
   \<and> execute 10 group_query orders_db
       = (Inr (Rows [[(''user_id'', Num 1), (''COUNT(*)'', Num 1)],
                     [(''user_id'', Num 2), (''COUNT(*)'', Num 1)]]), orders_db)"
  by (simp add: fuel_eval having_query_def group_query_def ex_eval all_eval)

section \<open>A derived table that fails\<close>

text \<open>
  Claim C3 at the statement
  \<^verbatim>\<open>SELECT * FROM (SELECT * FROM users) AS orders WHERE id IN (SELECT x FROM missing)\<close>, run
  while a table \<^verbatim>\<open>orders\<close> exists. The rows of the subquery are stored under the name
  \<^verbatim>\<open>orders\<close>, the outer statement fails on the missing table, and the \<^verbatim>\<open>catch\<close> block throws
  again without writing the former rows back: the table \<^verbatim>\<open>orders\<close> then holds the rows of
  \<^verbatim>\<open>users\<close>.
\<close>

theorem derived_table_not_restored:
  "(case execute 10 derived_failing shop_db of
      (res, st') \<Rightarrow>
        res = Inl (Error (''Query execution failed: Derived table error: ''
                            @ ''Subquery error in IN: Query execution failed: ''
                            @ ''Table missing does not exist''))
        \<and> getTableData st' ''orders'' = users_rows)
   \<and> getTableData shop_db ''orders'' = orders_rows"
  by (simp add: fuel_eval derived_failing_def ex_eval all_eval)

section \<open>INSERT checks no arity\<close>




section \<open>The operator \<^verbatim>\<open>!=\<close>\<close>

text \<open>
  Claim C5 at the row \<^verbatim>\<open>{age: 25}\<close>. The condition \<^verbatim>\<open>age != 30\<close> is false although 25 and
  30 are unequal, while \<^verbatim>\<open>age <> 30\<close> is true: the label of the \<^verbatim>\<open>switch\<close> is the text
  \<^verbatim>\<open>'!= '\<close> with a space at its end, which the operator \<^verbatim>\<open>!=\<close> found in the condition never
  equals, so the operator falls to the \<^verbatim>\<open>default\<close> label for every pair of values.
\<close>

theorem not_equal_operator:
  "evaluateCondition exec [(''age'', Num 25)] ''age != 30'' tableName st = (Inr False, st)
   \<and> evaluateCondition exec [(''age'', Num 25)] ''age <> 30'' tableName st = (Inr True, st)
   \<and> switch_op ''!='' rowValue val = False"
  by (simp add: cond_eval str_eval re_eval val_eval comp_eval)

section \<open>A DELETE that fails\<close>

text \<open>
  Claim C6 at the statement
  \<^verbatim>\<open>DELETE FROM users WHERE EXISTS (SELECT * FROM (SELECT * FROM orders) AS users WHERE id IN (SELECT x FROM missing))\<close>.
  The predicate's subquery fails on the first row, the DELETE is aborted and never calls
  \<^verbatim>\<open>saveTableData\<close> itself; but the subquery has stored its derived table under the name
  \<^verbatim>\<open>users\<close> and has not written the former rows back, so the failed statement leaves the
  rows of \<^verbatim>\<open>orders\<close> in the table \<^verbatim>\<open>users\<close>.
\<close>

theorem delete_failure_is_persisted:
  "(case execute 10 delete_failing shop_db of
      (res, st') \<Rightarrow>
        res = Inl (Error (''Query execution failed: Subquery error: ''
                            @ ''Query execution failed: Derived table error: ''
                            @ ''Subquery error in IN: Query execution failed: ''
                            @ ''Table missing does not exist''))
        \<and> getTableData st' ''users'' = orders_rows)
   \<and> getTableData shop_db ''users'' = users_rows"
  by (simp add: fuel_eval delete_failing_def ex_eval all_eval)

section \<open>LEFT JOIN with the ON clause turned round\<close>

text \<open>
  Claim C7 at \<^verbatim>\<open>SELECT * FROM users LEFT JOIN refunds ON refunds.user_id = users.id\<close>, with two
  rows in \<^verbatim>\<open>users\<close> and none in \<^verbatim>\<open>refunds\<close>. \<^verbatim>\<open>performJoin\<close> takes the table named first in
  the ON clause for the left one: it walks over the rows of \<^verbatim>\<open>refunds\<close>, and the result is
  empty although the left table of the statement has two rows.
\<close>

theorem left_join_loses_left_rows:
  "performJoin users_rows [] ''users'' ''refunds'' (Some ''refunds.user_id = users.id'')
     ''LEFT JOIN'' = Inr []
   \<and> execute 10 left_join_reversed shop_db = (Inr (Rows []), shop_db)
   \<and> length (getTableData shop_db ''users'') = 2
   \<and> getTableData shop_db ''refunds'' = []"
  by (simp add: fuel_eval left_join_reversed_def ex_eval all_eval)

section \<open>ORDER BY is stable\<close>










section \<open>LIKE on a null field\<close>

text \<open>
  Claim C9. Let the LIKE expression match the condition, let the row's value for the
  matched column be \<^verbatim>\<open>null\<close> or absent, and let the pattern be a text from which a regular
  expression is made. Then the condition is the test of that expression on the empty
  string: it neither fails nor is false outright.
\<close>

theorem like_on_null:
  assumes "re_match True likeRegex (js_trim cond) = Some m"
      and "row_get r (grp_str m 1) = Null \<or> row_get r (grp_str m 1) = Undefined"
      and "parseValue (grp_str m 2) = Str pattern"
      and "like_regex pattern = Some regex"
  shows "evaluateCondition exec r cond tableName st
           = (Inr (re_match_anchored False regex [] \<noteq> None), st)"
  using assms
  by (auto simp add: evaluateCondition_def like_condition_def like_subject_def ret_def Let_def)

text \<open>
  The theorem at \<^verbatim>\<open>name LIKE '%'\<close> and a row whose name is null: the condition holds.
  (No subquery is run, so the fuel of \<open>execute\<close> does not matter.)
\<close>

theorem like_on_null_witness:
  "evaluateCondition (execute 0) null_name_row ''name LIKE '%' '' None users_db
     = (Inr True, users_db)"
proof -
  obtain m where m: "re_match True likeRegex (js_trim ''name LIKE '%' '') = Some m"
    and g1: "grp_str m 1 = ''name''"
    and g2: "grp_str m 2 = [CHR 0x27, CHR ''%'', CHR 0x27]"
    by (simp add: likeRegex_def str_eval re_eval)
  have n: "row_get null_name_row (grp_str m 1) = Null
           \<or> row_get null_name_row (grp_str m 1) = Undefined"
    using g1 by (simp add: null_name_row_def val_eval)
  have p: "parseValue (grp_str m 2) = Str ''%''"
    by (simp add: g2 val_eval str_eval)
  have r: "like_regex ''%'' = Some (RSeq (RStar RDot) REol)"
    by (simp add: cond_eval)
  have "evaluateCondition (execute 0) null_name_row ''name LIKE '%' '' None users_db
          = (Inr (re_match_anchored False (RSeq (RStar RDot) REol) [] \<noteq> None), users_db)"
    using like_on_null [OF m n p r] .
  then show ?thesis
    by (simp add: re_eval)
qed

text \<open>A pattern that the empty string does not match: \<^verbatim>\<open>name LIKE 'J%'\<close> is false there.\<close>

lemma like_on_null_no_match:
  "evaluateCondition exec null_name_row ''name LIKE 'J%' '' tableName st = (Inr False, st)"
  by (simp add: null_name_row_def cond_eval str_eval re_eval val_eval comp_eval)

section \<open>The empty statement\<close>

lemma dropWhile_all: "list_all P xs \<Longrightarrow> dropWhile P xs = []"
  by (induction xs) auto

lemma js_trim_blank: "list_all js_space q \<Longrightarrow> js_trim q = []"
  by (simp add: js_trim_def dropWhile_all)

text \<open>
  Claim C10. A statement text that is empty or holds white space only makes \<^verbatim>\<open>execute\<close>
  throw the error \<^verbatim>\<open>Query cannot be empty\<close> under the prefix of \<^verbatim>\<open>execute\<close>, and the
  database is as it was.
\<close>

theorem execute_empty_query:
  assumes "list_all js_space query"
  shows "execute (Suc n) query st
           = (Inl (Error ''Query execution failed: Query cannot be empty''), st)"
  using assms
  by (simp add: execute_body_def try_rethrow_def throw_def js_trim_blank)

text \<open>The theorem at a text of three spaces.\<close>

theorem execute_empty_query_witness:
  "execute (Suc 0) ''   '' users_db
     = (Inl (Error ''Query execution failed: Query cannot be empty''), users_db)"
proof -
  have h: "list_all js_space ''   ''"
    by (simp add: js_space_table)
  show ?thesis
    using execute_empty_query [OF h] .
qed

end
